theory Spec2Isabelle
  imports Complex_Main
begin

section \<open>Host side: ghost enumeration (opengl\_lens\_flare.cpp, initializeLensSystem)\<close>

text \<open>
  \<^verbatim>\<open>struct GhostData { float bounce1; float bounce2; float padding1; float padding2; };\<close>
  The enumerator stores loop counters with \<^verbatim>\<open>static_cast<float>\<close> and the compute shader
  reads them back with \<^verbatim>\<open>uint(...)\<close>. Both conversions are the identity on the integers
  a 32-bit float represents exactly (up to \<open>2 ^ 24\<close>), so the record keeps the integer.
  The two padding fields are always written as \<open>0.0f\<close> and never read.
\<close>

record GhostData =
  bounce1 :: nat
  bounce2 :: nat

definition INT_MAX :: nat where
  "INT_MAX = 2 ^ 31 - 1"

definition SIZE_MAX :: nat where
  "SIZE_MAX = 2 ^ 64 - 1"

text \<open>
  \<^verbatim>\<open>lens_interfaces.size() - 1\<close> is computed in \<^verbatim>\<open>size_t\<close>: on an empty vector it wraps
  to \<open>SIZE_MAX\<close>. The \<^verbatim>\<open>int\<close> counters are converted to \<^verbatim>\<open>size_t\<close> for the comparison;
  they are never negative here, so the conversion keeps their value.
\<close>

definition size_minus_1 :: "nat \<Rightarrow> nat" where
  "size_minus_1 n = (if n = 0 then SIZE_MAX else n - 1)"

text \<open>
  The inner loop
  \<^verbatim>\<open>for (int bounce1 = bounce2 + 2; bounce1 < lens_interfaces.size() - 1; ++bounce1)
      ghost_data.push_back({bounce1, bounce2, 0, 0});\<close>
  Incrementing an \<^verbatim>\<open>int\<close> beyond \<open>INT_MAX\<close> is undefined behaviour: the model
  returns \<open>None\<close> there.
\<close>

function inner_loop :: "nat \<Rightarrow> nat \<Rightarrow> nat \<Rightarrow> GhostData list \<Rightarrow> GhostData list option" where
  "inner_loop bound b2 b1 ghost_data =
     (if b1 < bound then
        (if INT_MAX < b1 + 1 then None
         else inner_loop bound b2 (b1 + 1) (ghost_data @ [\<lparr>bounce1 = b1, bounce2 = b2\<rparr>]))
      else Some ghost_data)"
  by pat_completeness auto
termination
  by (relation "measure (\<lambda>(bound, b2, b1, ghost_data). INT_MAX - b1)") auto

declare inner_loop.simps [simp del]

text \<open>
  The outer loop
  \<^verbatim>\<open>for (int bounce2 = 1; bounce2 < lens_interfaces.size() - 1; ++bounce2) { inner loop }\<close>
\<close>

function outer_loop :: "nat \<Rightarrow> nat \<Rightarrow> GhostData list \<Rightarrow> GhostData list option" where
  "outer_loop bound b2 ghost_data =
     (if b2 < bound then
        (if INT_MAX < b2 + 2 then None
         else (case inner_loop bound b2 (b2 + 2) ghost_data of
                 None \<Rightarrow> None
               | Some ghost_data' \<Rightarrow> outer_loop bound (b2 + 1) ghost_data'))
      else Some ghost_data)"
  by pat_completeness auto
termination
  by (relation "measure (\<lambda>(bound, b2, ghost_data). INT_MAX - b2)") auto

declare outer_loop.simps [simp del]

text \<open>
  \<^verbatim>\<open>ghost_data.clear(); for ... ; num_ghosts = ghost_data.size();\<close> for a lens stack of
  \<open>n\<close> interfaces.
\<close>

definition generate_ghosts :: "nat \<Rightarrow> GhostData list option" where
  "generate_ghosts n = outer_loop (size_minus_1 n) 1 []"

text \<open>
  The count the specification gives for the enumerator, in its own words:
  \<open>\<Sum>_{b2=1}^{N-3} max(0, (N-2) - (b2+2))\<close>.
\<close>

definition spec_ghost_count :: "int \<Rightarrow> int" where
  "spec_ghost_count N = sum_list (map (\<lambda>b2. max 0 ((N - 2) - (b2 + 2))) [1..N - 3])"

text \<open>The number of values \<open>b1\<close> with \<open>b2 + 2 \<le> b1 \<le> N - 2\<close>, summed over the same range.\<close>

definition ghost_count :: "int \<Rightarrow> int" where
  "ghost_count N = sum_list (map (\<lambda>b2. max 0 ((N - 2) - (b2 + 2) + 1)) [1..N - 3])"

text \<open>The nested order: \<open>b2\<close> ascending outside, \<open>b1\<close> ascending from \<open>b2 + 2\<close> inside.\<close>

definition nested_order :: "nat \<Rightarrow> GhostData list" where
  "nested_order n =
     concat (map (\<lambda>b2. map (\<lambda>b1. \<lparr>bounce1 = b1, bounce2 = b2\<rparr>) [b2 + 2..<n - 1]) [1..<n - 1])"

section \<open>Floating-point values and vectors\<close>

text \<open>
  A \<^verbatim>\<open>float\<close> of the C++ host or of a GLSL shader is a real number, an infinity or a
  NaN. The arithmetic is the IEEE 754 arithmetic on these values with exact results:
  rounding, overflow to infinity and the sign of zero are not modelled (a non-zero value
  divided by zero is the infinity with the sign of the dividend). Every comparison with
  a NaN is false.
\<close>

datatype glfloat = Fin real | PInf | NInf | NaN

instantiation glfloat :: "{plus, uminus, minus, times, inverse, abs, ord}"
begin

fun plus_glfloat :: "glfloat \<Rightarrow> glfloat \<Rightarrow> glfloat" where
  "plus_glfloat NaN b = NaN"
| "plus_glfloat a NaN = NaN"
| "plus_glfloat (Fin a) (Fin b) = Fin (a + b)"
| "plus_glfloat PInf NInf = NaN"
| "plus_glfloat NInf PInf = NaN"
| "plus_glfloat PInf b = PInf"
| "plus_glfloat a PInf = PInf"
| "plus_glfloat NInf b = NInf"
| "plus_glfloat a NInf = NInf"

fun uminus_glfloat :: "glfloat \<Rightarrow> glfloat" where
  "uminus_glfloat (Fin a) = Fin (- a)"
| "uminus_glfloat PInf = NInf"
| "uminus_glfloat NInf = PInf"
| "uminus_glfloat NaN = NaN"

definition minus_glfloat :: "glfloat \<Rightarrow> glfloat \<Rightarrow> glfloat" where
  "minus_glfloat a b = a + (- b)"

fun times_glfloat :: "glfloat \<Rightarrow> glfloat \<Rightarrow> glfloat" where
  "times_glfloat NaN b = NaN"
| "times_glfloat a NaN = NaN"
| "times_glfloat (Fin a) (Fin b) = Fin (a * b)"
| "times_glfloat (Fin a) PInf = (if a = 0 then NaN else if 0 < a then PInf else NInf)"
| "times_glfloat (Fin a) NInf = (if a = 0 then NaN else if 0 < a then NInf else PInf)"
| "times_glfloat PInf (Fin b) = (if b = 0 then NaN else if 0 < b then PInf else NInf)"
| "times_glfloat NInf (Fin b) = (if b = 0 then NaN else if 0 < b then NInf else PInf)"
| "times_glfloat PInf PInf = PInf"
| "times_glfloat PInf NInf = NInf"
| "times_glfloat NInf PInf = NInf"
| "times_glfloat NInf NInf = PInf"

fun divide_glfloat :: "glfloat \<Rightarrow> glfloat \<Rightarrow> glfloat" where
  "divide_glfloat NaN b = NaN"
| "divide_glfloat a NaN = NaN"
| "divide_glfloat (Fin a) (Fin b) =
     (if b = 0 then (if a = 0 then NaN else if 0 < a then PInf else NInf) else Fin (a / b))"
| "divide_glfloat (Fin a) PInf = Fin 0"
| "divide_glfloat (Fin a) NInf = Fin 0"
| "divide_glfloat PInf (Fin b) = (if 0 \<le> b then PInf else NInf)"
| "divide_glfloat NInf (Fin b) = (if 0 \<le> b then NInf else PInf)"
| "divide_glfloat a b = NaN"

fun inverse_glfloat :: "glfloat \<Rightarrow> glfloat" where
  "inverse_glfloat (Fin a) = (if a = 0 then PInf else Fin (1 / a))"
| "inverse_glfloat PInf = Fin 0"
| "inverse_glfloat NInf = Fin 0"
| "inverse_glfloat NaN = NaN"

fun abs_glfloat :: "glfloat \<Rightarrow> glfloat" where
  "abs_glfloat (Fin a) = Fin \<bar>a\<bar>"
| "abs_glfloat PInf = PInf"
| "abs_glfloat NInf = PInf"
| "abs_glfloat NaN = NaN"

fun less_glfloat :: "glfloat \<Rightarrow> glfloat \<Rightarrow> bool" where
  "less_glfloat (Fin a) (Fin b) = (a < b)"
| "less_glfloat (Fin a) PInf = True"
| "less_glfloat NInf (Fin b) = True"
| "less_glfloat NInf PInf = True"
| "less_glfloat a b = False"

fun less_eq_glfloat :: "glfloat \<Rightarrow> glfloat \<Rightarrow> bool" where
  "less_eq_glfloat (Fin a) (Fin b) = (a \<le> b)"
| "less_eq_glfloat (Fin a) PInf = True"
| "less_eq_glfloat NInf (Fin b) = True"
| "less_eq_glfloat NInf PInf = True"
| "less_eq_glfloat PInf PInf = True"
| "less_eq_glfloat NInf NInf = True"
| "less_eq_glfloat a b = False"

instance ..

end

text \<open>\<^verbatim>\<open>sqrt(x)\<close>: NaN below zero.\<close>

fun fsqrt :: "glfloat \<Rightarrow> glfloat" where
  "fsqrt (Fin a) = (if a < 0 then NaN else Fin (sqrt a))"
| "fsqrt PInf = PInf"
| "fsqrt NInf = NaN"
| "fsqrt NaN = NaN"

text \<open>
  \<^verbatim>\<open>pow(x, 5.0)\<close>, the only use of \<^verbatim>\<open>pow\<close> in the tracer. GLSL leaves \<^verbatim>\<open>pow(x, y)\<close>
  undefined for \<open>x < 0\<close>; the model yields NaN there.
\<close>

fun pow5 :: "glfloat \<Rightarrow> glfloat" where
  "pow5 (Fin a) = (if a < 0 then NaN else Fin (a ^ 5))"
| "pow5 PInf = PInf"
| "pow5 NInf = NaN"
| "pow5 NaN = NaN"

definition is_finite :: "glfloat \<Rightarrow> bool" where
  "is_finite a = (case a of Fin r \<Rightarrow> True | _ \<Rightarrow> False)"

datatype vec2 = Vec2 (vec2_x: glfloat) (vec2_y: glfloat)

datatype vec3 = Vec3 (vec_x: glfloat) (vec_y: glfloat) (vec_z: glfloat)

datatype vec4 = Vec4 (vec4_x: glfloat) (vec4_y: glfloat) (vec4_z: glfloat) (vec4_w: glfloat)

text \<open>Componentwise \<^verbatim>\<open>a + b\<close>, \<^verbatim>\<open>a - b\<close> and \<^verbatim>\<open>v * s\<close> on \<^verbatim>\<open>vec3\<close>.\<close>

definition vadd :: "vec3 \<Rightarrow> vec3 \<Rightarrow> vec3" where
  "vadd a b = Vec3 (vec_x a + vec_x b) (vec_y a + vec_y b) (vec_z a + vec_z b)"

definition vsub :: "vec3 \<Rightarrow> vec3 \<Rightarrow> vec3" where
  "vsub a b = Vec3 (vec_x a - vec_x b) (vec_y a - vec_y b) (vec_z a - vec_z b)"

definition vscale :: "vec3 \<Rightarrow> glfloat \<Rightarrow> vec3" where
  "vscale v s = Vec3 (vec_x v * s) (vec_y v * s) (vec_z v * s)"

definition vdiv :: "vec3 \<Rightarrow> glfloat \<Rightarrow> vec3" where
  "vdiv v s = Vec3 (vec_x v / s) (vec_y v / s) (vec_z v / s)"

text \<open>The GLSL built-ins \<^verbatim>\<open>dot\<close>, \<^verbatim>\<open>length\<close>, \<^verbatim>\<open>normalize\<close> and \<^verbatim>\<open>reflect\<close>:
  \<^verbatim>\<open>normalize(v) = v / length(v)\<close> and \<^verbatim>\<open>reflect(I, N) = I - 2.0 * dot(N, I) * N\<close>.\<close>

definition dot :: "vec3 \<Rightarrow> vec3 \<Rightarrow> glfloat" where
  "dot a b = vec_x a * vec_x b + vec_y a * vec_y b + vec_z a * vec_z b"

definition vlength :: "vec3 \<Rightarrow> glfloat" where
  "vlength v = fsqrt (dot v v)"

definition normalize_vec3 :: "vec3 \<Rightarrow> vec3" where
  "normalize_vec3 v = vdiv v (vlength v)"

definition reflect :: "vec3 \<Rightarrow> vec3 \<Rightarrow> vec3" where
  "reflect I N = vsub I (vscale N (Fin 2 * dot N I))"

section \<open>Host side: the lens prescription and the interface array\<close>

text \<open>
  \<^verbatim>\<open>struct PatentFormat { float r; float d; float n; bool f; float w; float h; float c; };\<close>
  The one-letter field names of the source carry the prefix \<open>pf_\<close> here.
\<close>

record PatentFormat =
  pf_r :: glfloat
  pf_d :: glfloat
  pf_n :: glfloat
  pf_f :: bool
  pf_w :: glfloat
  pf_h :: glfloat
  pf_c :: glfloat

text \<open>
  \<^verbatim>\<open>struct LensInterface { vec3 center; float radius; vec3 n; float sa; float d1;
                         float is_flat; float pos; float w; };\<close>
  with \<^verbatim>\<open>n.x\<close> the left index of refraction, \<^verbatim>\<open>n.y\<close> the coating's and \<^verbatim>\<open>n.z\<close> the right
  one. The fields \<^verbatim>\<open>n\<close> and \<^verbatim>\<open>w\<close> are \<open>li_n\<close> and \<open>li_w\<close> here.
\<close>

record LensInterface =
  center :: vec3
  radius :: glfloat
  li_n :: vec3
  sa :: glfloat
  d1 :: glfloat
  is_flat :: glfloat
  pos :: glfloat
  li_w :: glfloat

definition patent :: "real \<Rightarrow> real \<Rightarrow> real \<Rightarrow> bool \<Rightarrow> real \<Rightarrow> real \<Rightarrow> real \<Rightarrow> PatentFormat" where
  "patent r d n f w h c =
     \<lparr>pf_r = Fin r, pf_d = Fin d, pf_n = Fin n, pf_f = f, pf_w = Fin w, pf_h = Fin h, pf_c = Fin c\<rparr>"

text \<open>The table \<^verbatim>\<open>nikon_lens\<close> of \<^verbatim>\<open>initializeLensSystem\<close> (Nikon 28-75mm), row by row.\<close>

definition nikon_lens :: "PatentFormat list" where
  "nikon_lens =
    [patent 72.747 2.300 1.60300 False 0.2 29.0 530,
     patent 37.000 13.000 1.00000 False 0.2 29.0 600,
     patent (-172.809) 2.100 1.58913 False 2.7 26.2 570,
     patent 39.894 1.000 1.00000 False 2.7 26.2 660,
     patent 49.820 4.400 1.86074 False 0.5 20.0 330,
     patent 74.750 53.142 1.00000 False 0.5 20.0 544,
     patent 63.402 1.600 1.86074 False 0.5 16.1 740,
     patent 37.530 8.600 1.51680 False 0.5 16.1 411,
     patent (-75.887) 1.600 1.80458 False 0.5 16.0 580,
     patent (-97.792) 7.063 1.00000 False 0.5 16.5 730,
     patent 96.034 3.600 1.62041 False 0.5 18.0 700,
     patent 261.743 0.100 1.00000 False 0.5 18.0 440,
     patent 54.262 6.000 1.69680 False 0.5 18.0 800,
     patent (-5995.277) 1.532 1.00000 False 0.5 18.0 300,
     patent 0.0 2.800 1.00000 True 18.0 7.0 440,
     patent (-74.414) 2.200 1.90265 False 0.5 13.0 500,
     patent (-62.929) 1.450 1.51680 False 0.1 13.0 770,
     patent 121.380 2.500 1.00000 False 4.0 13.1 820,
     patent (-85.723) 1.400 1.49782 False 4.0 13.0 200,
     patent 31.093 2.600 1.80458 False 4.0 13.1 540,
     patent 84.758 16.889 1.00000 False 0.5 13.0 580,
     patent 459.690 1.400 1.86074 False 1.0 15.0 533,
     patent 40.240 7.300 1.49782 False 1.0 15.0 666,
     patent (-49.771) 0.100 1.00000 False 1.0 15.2 500,
     patent 62.369 7.000 1.67025 False 1.0 16.0 487,
     patent (-76.454) 5.200 1.00000 False 1.0 16.0 671,
     patent (-32.524) 2.000 1.80454 False 0.5 17.0 487,
     patent (-50.194) 39.683 1.00000 False 0.5 17.0 732,
     patent 0.0 5.0 1.00000 True 10.0 10.0 500]"

text \<open>
  The conversion loop
  \<^verbatim>\<open>for (int i = nikon_lens.size() - 1; i >= 0; --i) {
      const auto& entry = nikon_lens[i];
      total_distance += entry.d;
      interface.center = vec3(0, 0, total_distance - entry.r);
      interface.radius = entry.r;
      float left_ior = (i == 0) ? 1.0f : nikon_lens[i-1].n;
      interface.n = vec3(left_ior, 1.0f, entry.n);
      interface.sa = entry.h;  interface.d1 = entry.c;
      interface.is_flat = entry.f ? 1.0f : 0.0f;
      interface.pos = total_distance;  interface.w = entry.w;
      lens_interfaces.push_back(interface);
  }\<close>
  The first argument after the table counts the entries still to visit: \<open>Suc i\<close> is the
  iteration that reads \<^verbatim>\<open>nikon_lens[i]\<close>, and \<open>0\<close> is the exit \<^verbatim>\<open>i < 0\<close>.
\<close>

primrec convert_loop ::
  "PatentFormat list \<Rightarrow> nat \<Rightarrow> glfloat \<Rightarrow> LensInterface list \<Rightarrow> LensInterface list" where
  "convert_loop lens 0 total_distance lens_interfaces = lens_interfaces"
| "convert_loop lens (Suc i) total_distance lens_interfaces =
     (let entry = lens ! i;
          total_distance' = total_distance + pf_d entry;
          left_ior = (if i = 0 then Fin 1 else pf_n (lens ! (i - 1)));
          interface = \<lparr>center = Vec3 (Fin 0) (Fin 0) (total_distance' - pf_r entry),
                       radius = pf_r entry,
                       li_n = Vec3 left_ior (Fin 1) (pf_n entry),
                       sa = pf_h entry,
                       d1 = pf_c entry,
                       is_flat = (if pf_f entry then Fin 1 else Fin 0),
                       pos = total_distance',
                       li_w = pf_w entry\<rparr>
      in convert_loop lens i total_distance' (lens_interfaces @ [interface]))"

text \<open>\<^verbatim>\<open>float total_distance = 0.0f; lens_interfaces.clear();\<close> and the loop.\<close>

definition build_interfaces :: "PatentFormat list \<Rightarrow> LensInterface list" where
  "build_interfaces lens = convert_loop lens (length lens) (Fin 0) []"

text \<open>The array the program uploads, and the ghost list enumerated over it.\<close>

definition lens_interfaces :: "LensInterface list" where
  "lens_interfaces = build_interfaces nikon_lens"

text \<open>
  The invariant as the specification words it: interface \<open>i\<close>'s exit-side index equals
  interface \<open>i + 1\<close>'s incident-side index.
\<close>

definition spec_chained :: "LensInterface list \<Rightarrow> bool" where
  "spec_chained ifaces =
     list_all (\<lambda>i. vec_z (li_n (ifaces ! i)) = vec_x (li_n (ifaces ! (i + 1))))
       [0..<length ifaces - 1]"

section \<open>The ray-tracing compute shader (lens\_flare\_compute)\<close>

text \<open>
  Of the uniform block \<^verbatim>\<open>GlobalUniforms\<close> the shader reads \<^verbatim>\<open>light_dir\<close> and
  \<^verbatim>\<open>backbuffer_size\<close> only.
\<close>

record GlobalUniforms =
  light_dir :: vec3
  backbuffer_size :: vec2

text \<open>
  \<^verbatim>\<open>bool intersectSphere(vec3 rayOrigin, vec3 rayDir, vec3 sphereCenter, float sphereRadius,
                        out float t)\<close>.
  The result pairs the returned flag with the value of the \<^verbatim>\<open>out\<close> parameter, \<open>None\<close> when
  the function returns before writing it.
\<close>

definition intersectSphere ::
  "vec3 \<Rightarrow> vec3 \<Rightarrow> vec3 \<Rightarrow> glfloat \<Rightarrow> bool \<times> glfloat option" where
  "intersectSphere rayOrigin rayDir sphereCenter sphereRadius =
     (let oc = vsub rayOrigin sphereCenter;
          a = dot rayDir rayDir;
          b = Fin 2 * dot oc rayDir;
          c = dot oc oc - sphereRadius * sphereRadius;
          discriminant = b * b - Fin 4 * a * c
      in if discriminant < Fin 0 then (False, None)
         else
           let sqrt_discriminant = fsqrt discriminant;
               t1 = (- b - sqrt_discriminant) / (Fin 2 * a);
               t2 = (- b + sqrt_discriminant) / (Fin 2 * a);
               t = (if Fin 0 < t1 then t1 else t2)
           in (Fin 0 < t, Some t))"

text \<open>
  \<^verbatim>\<open>bool intersectPlane(vec3 rayOrigin, vec3 rayDir, vec3 planeCenter, vec3 planeNormal,
                      out float t)\<close>.
  The threshold of the test \<^verbatim>\<open>abs(denom) < 1e-6\<close> is the 32-bit float the literal \<^verbatim>\<open>1e-6\<close>
  denotes, \<open>8796093 * 2 ^ - 43\<close>.
\<close>

definition intersectPlane ::
  "vec3 \<Rightarrow> vec3 \<Rightarrow> vec3 \<Rightarrow> vec3 \<Rightarrow> bool \<times> glfloat option" where
  "intersectPlane rayOrigin rayDir planeCenter planeNormal =
     (let denom = dot planeNormal rayDir
      in if \<bar>denom\<bar> < Fin (8796093 / 8796093022208) then (False, None)
         else
           let p0l0 = vsub planeCenter rayOrigin;
               t = dot p0l0 planeNormal / denom
           in (Fin 0 \<le> t, Some t))"

text \<open>
  \<^verbatim>\<open>float fresnel(float cosTheta, float n1, float n2) {
      float r0 = (n1 - n2) / (n1 + n2);
      r0 = r0 * r0;
      float cosX = 1.0 - cosTheta;
      return r0 + (1.0 - r0) * pow(cosX, 5.0);
  }\<close>
\<close>

definition fresnel :: "glfloat \<Rightarrow> glfloat \<Rightarrow> glfloat \<Rightarrow> glfloat" where
  "fresnel cosTheta n1 n2 =
     (let r0 = (n1 - n2) / (n1 + n2);
          r0 = r0 * r0;
          cosX = Fin 1 - cosTheta
      in r0 + (Fin 1 - r0) * pow5 cosX)"

text \<open>The three variables the two loops of \<^verbatim>\<open>main\<close> update.\<close>

record ray =
  current_pos :: vec3
  current_dir :: vec3
  intensity :: glfloat

text \<open>
  One pass through the body shared by both loops, up to the test \<^verbatim>\<open>if (!hit)\<close>:
  \<open>None\<close> is the miss that takes the \<^verbatim>\<open>break\<close>. The flag \<open>bounce\<close> is the test
  \<^verbatim>\<open>i == bounce1_idx - 1\<close> (in the second loop \<^verbatim>\<open>i == bounce2_idx - 1\<close>).
\<close>

definition trace_step :: "LensInterface \<Rightarrow> bool \<Rightarrow> ray \<Rightarrow> ray option" where
  "trace_step iface bounce st =
     (case (if Fin (1 / 2) < is_flat iface
            then intersectPlane (current_pos st) (current_dir st) (center iface)
                   (Vec3 (Fin 0) (Fin 0) (Fin 1))
            else intersectSphere (current_pos st) (current_dir st) (center iface) (radius iface))
      of (True, Some t) \<Rightarrow>
           (let st = st\<lparr>current_pos := vadd (current_pos st) (vscale (current_dir st) t)\<rparr>
            in if bounce then
                 (let normal = normalize_vec3 (vsub (current_pos st) (center iface));
                      st = st\<lparr>current_dir := reflect (current_dir st) normal\<rparr>
                  in Some (st\<lparr>intensity := intensity st *
                       (fresnel \<bar>dot (current_dir st) normal\<bar>
                          (vec_x (li_n iface)) (vec_z (li_n iface)) * Fin (1 / 10))\<rparr>))
               else Some st)
       | _ \<Rightarrow> None)"

text \<open>
  \<^verbatim>\<open>for (uint i = start; i < bounce_idx && i < lens_interfaces.length(); ++i) {
      ... if (!hit) { intensity = 0.0; break; } ... }\<close>
  The first loop is \<open>trace_loop lens bounce1_idx 0\<close>, the second
  \<open>trace_loop lens bounce2_idx bounce1_idx\<close>.
\<close>

function trace_loop :: "LensInterface list \<Rightarrow> nat \<Rightarrow> nat \<Rightarrow> ray \<Rightarrow> ray" where
  "trace_loop lens bounce_idx i st =
     (if i < bounce_idx \<and> i < length lens then
        (case trace_step (lens ! i) (i = bounce_idx - 1) st of
           None \<Rightarrow> st\<lparr>intensity := Fin 0\<rparr>
         | Some st' \<Rightarrow> trace_loop lens bounce_idx (i + 1) st')
      else st)"
  by pat_completeness auto
termination
  by (relation "measure (\<lambda>(lens, bounce_idx, i, st). bounce_idx - i)") auto

declare trace_loop.simps [simp del]

text \<open>A ray survives a loop when no iteration takes the \<^verbatim>\<open>break\<close>.\<close>

function survives :: "LensInterface list \<Rightarrow> nat \<Rightarrow> nat \<Rightarrow> ray \<Rightarrow> bool" where
  "survives lens bounce_idx i st =
     (if i < bounce_idx \<and> i < length lens then
        (case trace_step (lens ! i) (i = bounce_idx - 1) st of
           None \<Rightarrow> False
         | Some st' \<Rightarrow> survives lens bounce_idx (i + 1) st')
      else True)"
  by pat_completeness auto
termination
  by (relation "measure (\<lambda>(lens, bounce_idx, i, st). bounce_idx - i)") auto

declare survives.simps [simp del]

text \<open>
  Ray generation:
  \<^verbatim>\<open>vec2 aperture_coord = (vec2(local_x, local_y) / 16.0 - 0.5) * 2.0;
  vec3 ray_origin = vec3(aperture_coord * 10.0, -100.0);
  vec3 ray_dir = normalize(light_dir);\<close>
\<close>

definition aperture_coord :: "nat \<Rightarrow> glfloat" where
  "aperture_coord local = (Fin (real local) / Fin 16 - Fin (1 / 2)) * Fin 2"

definition initial_ray :: "GlobalUniforms \<Rightarrow> nat \<Rightarrow> nat \<Rightarrow> ray" where
  "initial_ray globals local_x local_y =
     \<lparr>current_pos = Vec3 (aperture_coord local_x * Fin 10) (aperture_coord local_y * Fin 10)
                       (Fin (- 100)),
      current_dir = normalize_vec3 (light_dir globals),
      intensity = Fin 1\<rparr>"

text \<open>The state after both loops.\<close>

definition trace_ghost :: "GlobalUniforms \<Rightarrow> LensInterface list \<Rightarrow> GhostData \<Rightarrow> nat \<Rightarrow> nat \<Rightarrow> ray" where
  "trace_ghost globals lens ghost local_x local_y =
     trace_loop lens (bounce2 ghost) (bounce1 ghost)
       (trace_loop lens (bounce1 ghost) 0 (initial_ray globals local_x local_y))"

text \<open>\<^verbatim>\<open>vec2 screen_pos = current_pos.xy / backbuffer_size * 2.0 - 1.0;\<close>\<close>

definition screen_pos :: "GlobalUniforms \<Rightarrow> vec3 \<Rightarrow> vec2" where
  "screen_pos globals p =
     Vec2 (vec_x p / vec2_x (backbuffer_size globals) * Fin 2 - Fin 1)
          (vec_y p / vec2_y (backbuffer_size globals) * Fin 2 - Fin 1)"

text \<open>\<^verbatim>\<open>uint vertex_idx = ghost_id * 256 + local_y * 16 + local_x;\<close> in 32-bit unsigned
  arithmetic.\<close>

definition vertex_idx :: "nat \<Rightarrow> nat \<Rightarrow> nat \<Rightarrow> nat" where
  "vertex_idx ghost_id local_x local_y = (ghost_id * 256 + local_y * 16 + local_x) mod 2 ^ 32"

text \<open>The record one invocation stores: \<^verbatim>\<open>vec4(screen_pos, intensity, 1.0)\<close>.\<close>

definition vertex_record :: "GlobalUniforms \<Rightarrow> ray \<Rightarrow> vec4" where
  "vertex_record globals st =
     Vec4 (vec2_x (screen_pos globals (current_pos st))) (vec2_y (screen_pos globals (current_pos st)))
          (intensity st) (Fin 1)"

text \<open>
  What a shader does outside what GLSL defines: an integer \<^verbatim>\<open>/\<close> or \<^verbatim>\<open>%\<close> with an undefined
  result, and a read or a store outside a buffer.
\<close>

datatype shader_fault = UndefinedArithmetic | OutOfBoundsRead | OutOfBoundsWrite

text \<open>
  The store \<^verbatim>\<open>vertex_data[vertex_idx] = v\<close>: inside the buffer it replaces one element, outside
  it is a fault.
\<close>

definition store_vertex :: "vec4 list \<Rightarrow> nat \<Rightarrow> vec4 \<Rightarrow> shader_fault + vec4 list" where
  "store_vertex vertex_data idx v =
     (if idx < length vertex_data then Inr (vertex_data[idx := v]) else Inl OutOfBoundsWrite)"

text \<open>
  \<^verbatim>\<open>void main()\<close> for the invocation \<^verbatim>\<open>gl_GlobalInvocationID = (x, y, _)\<close>: the buffer
  \<^verbatim>\<open>vertex_data\<close> after the invocation, or the fault. Each \<^verbatim>\<open>return\<close> before the store
  leaves the buffer as it was; the store is under the test
  \<^verbatim>\<open>if (vertex_idx < vertex_data.length())\<close>.
\<close>

definition main ::
  "GlobalUniforms \<Rightarrow> LensInterface list \<Rightarrow> GhostData list \<Rightarrow> nat \<times> nat \<Rightarrow> vec4 list
     \<Rightarrow> shader_fault + vec4 list" where
  "main globals lens ghost_data thread_id vertex_data =
     (let ghost_id = fst thread_id div 16
      in if length ghost_data \<le> ghost_id then Inr vertex_data
         else
           let local_x = fst thread_id mod 16;
               local_y = snd thread_id
           in if 16 \<le> local_x \<or> 16 \<le> local_y then Inr vertex_data
              else
                let ghost = ghost_data ! ghost_id;
                    bounce1_idx = bounce1 ghost;
                    bounce2_idx = bounce2 ghost
                in if length lens \<le> bounce1_idx \<or> length lens \<le> bounce2_idx then Inr vertex_data
                   else
                     let st = trace_ghost globals lens ghost local_x local_y;
                         idx = vertex_idx ghost_id local_x local_y
                     in if idx < length vertex_data
                        then store_vertex vertex_data idx (vertex_record globals st)
                        else Inr vertex_data)"

section \<open>Host dispatch and the ghost geometry vertex shader (ghost\_render\_vertex)\<close>

text \<open>\<^verbatim>\<open>int patch_tessellation = 32;\<close> of \<^verbatim>\<open>LensFlareRenderer\<close>, the value the host hands
  to the vertex shader as the uniform of the same name and uses to size the dispatch and
  the vertex buffer.\<close>

definition patch_tessellation :: int where
  "patch_tessellation = 32"

text \<open>
  \<^verbatim>\<open>int groups_x = (patch_tessellation + 15) / 16;  int groups_y = (patch_tessellation + 15) / 16;
  glDispatchCompute(num_ghosts * groups_x, groups_y, 1);\<close>
  with work groups of 16 by 16 invocations: the invocation ids of one frame.
\<close>

definition dispatched :: "nat \<Rightarrow> nat \<times> nat \<Rightarrow> bool" where
  "dispatched num_ghosts thread_id =
     (let groups_x = nat ((patch_tessellation + 15) div 16);
          groups_y = nat ((patch_tessellation + 15) div 16)
      in fst thread_id < num_ghosts * groups_x * 16 \<and> snd thread_id < groups_y * 16)"

text \<open>
  \<^verbatim>\<open>int total_vertices = num_ghosts * patch_tessellation * patch_tessellation;
  glBufferData(GL_SHADER_STORAGE_BUFFER, total_vertices * 4 * sizeof(glm::vec4), ...);\<close>
  The number of \<^verbatim>\<open>vec4\<close> elements of \<^verbatim>\<open>vertex_data\<close>.
\<close>

definition vertex_buffer_length :: "nat \<Rightarrow> nat" where
  "vertex_buffer_length num_ghosts =
     num_ghosts * nat patch_tessellation * nat patch_tessellation * 4"

text \<open>GLSL \<^verbatim>\<open>int\<close> arithmetic keeps the low 32 bits, read as two's complement.\<close>

definition int32 :: "int \<Rightarrow> int" where
  "int32 k = signed_take_bit 31 k"

text \<open>The outputs of the vertex shader: \<^verbatim>\<open>gl_Position\<close>, \<^verbatim>\<open>intensity\<close> and
  \<^verbatim>\<open>aperture_coord\<close>.\<close>

record vs_out =
  gl_Position :: vec4
  vs_intensity :: glfloat
  vs_aperture_coord :: vec2

definition quad_offsets :: "(int \<times> int) list" where
  "quad_offsets = [(0, 0), (1, 0), (0, 1), (1, 0), (1, 1), (0, 1)]"

text \<open>
  The grid cell of a vertex:
  \<^verbatim>\<open>int triangle_id = gl_VertexID / 6;  int vertex_in_triangle = gl_VertexID % 6;
  int grid_x = triangle_id % (patch_tessellation - 1);
  int grid_y = triangle_id / (patch_tessellation - 1);
  ivec2 offset = quad_offsets[vertex_in_triangle];
  int local_x = grid_x + offset.x;  int local_y = grid_y + offset.y;
  local_x = min(local_x, patch_tessellation - 1);
  local_y = min(local_y, patch_tessellation - 1);\<close>
  \<^verbatim>\<open>gl_VertexID\<close> is never negative. The operators \<^verbatim>\<open>/\<close> and \<^verbatim>\<open>%\<close> are undefined for a
  zero divisor and \<^verbatim>\<open>%\<close> for a negative operand, so the cell is defined for
  \<^verbatim>\<open>patch_tessellation - 1 > 0\<close> only; there both operands are non-negative and the
  operators are \<open>div\<close> and \<open>mod\<close>.
\<close>

definition grid_cell :: "int \<Rightarrow> nat \<Rightarrow> shader_fault + int \<times> int" where
  "grid_cell tess gl_VertexID =
     (if int32 (tess - 1) \<le> 0 then Inl UndefinedArithmetic
      else
        let triangle_id = int gl_VertexID div 6;
            vertex_in_triangle = int gl_VertexID mod 6;
            grid_x = triangle_id mod int32 (tess - 1);
            grid_y = triangle_id div int32 (tess - 1);
            offset = quad_offsets ! nat vertex_in_triangle;
            local_x = int32 (grid_x + fst offset);
            local_y = int32 (grid_y + snd offset);
            local_x = min local_x (int32 (tess - 1));
            local_y = min local_y (int32 (tess - 1))
        in Inr (local_x, local_y))"

text \<open>
  \<^verbatim>\<open>int total_vertices_per_ghost = patch_tessellation * patch_tessellation;
  int vertex_in_ghost = local_y * patch_tessellation + local_x;
  int vertex_idx = int(ghost_id) * total_vertices_per_ghost + vertex_in_ghost;\<close>
  The uniform \<^verbatim>\<open>ghost_id\<close> is a float that the host sets from an \<^verbatim>\<open>int\<close> below 10; the
  argument here is \<^verbatim>\<open>int(ghost_id)\<close>.
\<close>

definition source_idx :: "int \<Rightarrow> int \<Rightarrow> int \<Rightarrow> int \<Rightarrow> int" where
  "source_idx tess ghost_id local_x local_y =
     (let total_vertices_per_ghost = int32 (tess * tess);
          vertex_in_ghost = int32 (int32 (local_y * tess) + local_x)
      in int32 (int32 (ghost_id * total_vertices_per_ghost) + vertex_in_ghost))"

text \<open>The vertex the shader emits for an index beyond the buffer:
  \<^verbatim>\<open>gl_Position = vec4(0.0, 0.0, -10.0, 1.0); intensity = 0.0; aperture_coord = vec2(0.0);\<close>\<close>

definition sentinel :: vs_out where
  "sentinel = \<lparr>gl_Position = Vec4 (Fin 0) (Fin 0) (Fin (- 10)) (Fin 1), vs_intensity = Fin 0,
                vs_aperture_coord = Vec2 (Fin 0) (Fin 0)\<rparr>"

text \<open>
  \<^verbatim>\<open>void main()\<close> of the vertex shader. The test before the read is
  \<^verbatim>\<open>if (vertex_idx >= vertex_data.length())\<close> on signed integers; a negative index passes it
  and reads outside the buffer.
\<close>

definition ghost_vertex_main :: "int \<Rightarrow> int \<Rightarrow> nat \<Rightarrow> vec4 list \<Rightarrow> shader_fault + vs_out" where
  "ghost_vertex_main tess ghost_id gl_VertexID vertex_data =
     (case grid_cell tess gl_VertexID of
        Inl fault \<Rightarrow> Inl fault
      | Inr (local_x, local_y) \<Rightarrow>
          let idx = source_idx tess ghost_id local_x local_y
          in if int (length vertex_data) \<le> idx then Inr sentinel
             else if idx < 0 then Inl OutOfBoundsRead
             else
               let vertex = vertex_data ! nat idx
               in Inr \<lparr>gl_Position = Vec4 (vec4_x vertex) (vec4_y vertex) (Fin 0) (Fin 1),
                       vs_intensity = vec4_z vertex,
                       vs_aperture_coord =
                         Vec2 ((Fin (real_of_int local_x) / Fin (real_of_int (int32 (tess - 1)))
                                  - Fin (1 / 2)) * Fin 2)
                              ((Fin (real_of_int local_y) / Fin (real_of_int (int32 (tess - 1)))
                                  - Fin (1 / 2)) * Fin 2)\<rparr>)"

section \<open>Example inputs\<close>

text \<open>
  Inputs for evaluating the shaders by hand: the frame constants of \<^verbatim>\<open>updateUniforms\<close> with
  the light on the optical axis, and small lens stacks whose surfaces a ray starting at
  \<open>(3.75, 5, -100)\<close> (invocation \<open>(11, 12)\<close>) meets at rational points.
\<close>

definition example_globals :: GlobalUniforms where
  "example_globals =
     \<lparr>light_dir = Vec3 (Fin 0) (Fin 0) (Fin 1), backbuffer_size = Vec2 (Fin 1920) (Fin 1080)\<rparr>"

text \<open>A spherical interface of radius 16.25 between indices 1.0 and 1.5, centred at
  \<open>(c\<^sub>x, 0, c\<^sub>z)\<close>, and a planar one through \<open>(0, 0, c\<^sub>z)\<close>.\<close>

definition sphere_at :: "real \<Rightarrow> real \<Rightarrow> LensInterface" where
  "sphere_at cx cz =
     \<lparr>center = Vec3 (Fin cx) (Fin 0) (Fin cz), radius = Fin (65 / 4),
      li_n = Vec3 (Fin 1) (Fin 1) (Fin (3 / 2)), sa = Fin 20, d1 = Fin 500, is_flat = Fin 0,
      pos = Fin (cz + 65 / 4), li_w = Fin (1 / 2)\<rparr>"

definition plane_at :: "real \<Rightarrow> LensInterface" where
  "plane_at cz =
     \<lparr>center = Vec3 (Fin 0) (Fin 0) (Fin cz), radius = Fin 0,
      li_n = Vec3 (Fin 1) (Fin 1) (Fin (3 / 2)), sa = Fin 20, d1 = Fin 500, is_flat = Fin 1,
      pos = Fin cz, li_w = Fin (1 / 2)\<rparr>"

text \<open>Five interfaces; the first three are spherical, the fourth is planar.\<close>

definition example_lens :: "LensInterface list" where
  "example_lens = [sphere_at 0 20, sphere_at 0 30, sphere_at 0 40, plane_at 50, sphere_at 0 70]"

text \<open>Five interfaces with a planar one at index 2.\<close>

definition example_lens_planar :: "LensInterface list" where
  "example_lens_planar = [sphere_at 0 20, sphere_at 0 30, plane_at 25, plane_at 50, sphere_at 0 70]"

text \<open>Five interfaces: a sphere off the axis that an axial ray misses, then four planes.\<close>

definition example_lens_miss :: "LensInterface list" where
  "example_lens_miss = [sphere_at 50 20, plane_at 5, plane_at 10, plane_at 15, plane_at 20]"

text \<open>The first ghost the enumerator emits for five interfaces.\<close>

definition example_ghost :: GhostData where
  "example_ghost = \<lparr>bounce1 = 3, bounce2 = 1\<rparr>"

text \<open>A vertex buffer as the previous frame might have left it: every component 0.\<close>

definition stale_buffer :: "nat \<Rightarrow> vec4 list" where
  "stale_buffer len = replicate len (Vec4 (Fin 0) (Fin 0) (Fin 0) (Fin 0))"

text \<open>
  The first reflection as the specification words it: at the interface whose index is the
  ghost's first bounce, about the normalised vector from the hit point to the centre for a
  spherical surface and about the axis for a planar one.
\<close>

definition spec_surface_normal :: "LensInterface \<Rightarrow> vec3 \<Rightarrow> vec3" where
  "spec_surface_normal iface hit =
     (if Fin (1 / 2) < is_flat iface then Vec3 (Fin 0) (Fin 0) (Fin 1)
      else normalize_vec3 (vsub (center iface) hit))"

definition spec_first_reflection :: "LensInterface list \<Rightarrow> GhostData \<Rightarrow> vec3 \<Rightarrow> vec3 \<Rightarrow> vec3" where
  "spec_first_reflection lens ghost incoming hit =
     reflect incoming (spec_surface_normal (lens ! bounce1 ghost) hit)"

section \<open>Properties of the ghost enumerator\<close>

lemma inner_loop_eq:
  "bound \<le> INT_MAX \<Longrightarrow>
   inner_loop bound b2 b1 gd = Some (gd @ map (\<lambda>b1. \<lparr>bounce1 = b1, bounce2 = b2\<rparr>) [b1..<bound])"
proof (induction bound b2 b1 gd rule: inner_loop.induct)
  case (1 bound b2 b1 gd)
  show ?case
  proof (cases "b1 < bound")
    case True
    then have no_ovf: "\<not> INT_MAX < b1 + 1" using "1.prems" by simp
    from True no_ovf "1.IH" "1.prems" show ?thesis
      by (subst inner_loop.simps) (simp add: upt_conv_Cons)
  next
    case False
    then show ?thesis by (subst inner_loop.simps) simp
  qed
qed

lemma outer_loop_eq:
  "bound < INT_MAX \<Longrightarrow>
   outer_loop bound b2 gd =
     Some (gd @ concat (map (\<lambda>b2. map (\<lambda>b1. \<lparr>bounce1 = b1, bounce2 = b2\<rparr>) [b2 + 2..<bound]) [b2..<bound]))"
proof (induction bound b2 gd rule: outer_loop.induct)
  case (1 bound b2 gd)
  show ?case
  proof (cases "b2 < bound")
    case True
    have no_ovf: "\<not> INT_MAX < b2 + 2" using True "1.prems" by linarith
    have le: "bound \<le> INT_MAX" using "1.prems" by linarith
    have inner: "inner_loop bound b2 (b2 + 2) gd =
        Some (gd @ map (\<lambda>b1. \<lparr>bounce1 = b1, bounce2 = b2\<rparr>) [b2 + 2..<bound])"
      by (rule inner_loop_eq [OF le])
    have IH: "outer_loop bound (b2 + 1) (gd @ map (\<lambda>b1. \<lparr>bounce1 = b1, bounce2 = b2\<rparr>) [b2 + 2..<bound]) =
       Some ((gd @ map (\<lambda>b1. \<lparr>bounce1 = b1, bounce2 = b2\<rparr>) [b2 + 2..<bound]) @
         concat (map (\<lambda>b2. map (\<lambda>b1. \<lparr>bounce1 = b1, bounce2 = b2\<rparr>) [b2 + 2..<bound]) [b2 + 1..<bound]))"
      by (rule "1.IH" [OF True no_ovf inner "1.prems"])
    have upt: "[b2..<bound] = b2 # [b2 + 1..<bound]"
      using True by (simp add: upt_conv_Cons)
    show ?thesis
      apply (subst outer_loop.simps)
      apply (simp only: True no_ovf if_True if_False inner option.case IH upt)
      apply simp
      done
  next
    case False
    then show ?thesis by (subst outer_loop.simps) simp
  qed
qed

lemma generate_ghosts_eq:
  "1 \<le> n \<Longrightarrow> n \<le> INT_MAX \<Longrightarrow> generate_ghosts n = Some (nested_order n)"
proof -
  assume n: "1 \<le> n" "n \<le> INT_MAX"
  then have bound: "size_minus_1 n = n - 1" "n - 1 < INT_MAX"
    by (simp_all add: size_minus_1_def)
  show ?thesis
    unfolding generate_ghosts_def nested_order_def bound(1)
    by (subst outer_loop_eq [OF bound(2)]) simp
qed

text \<open>
  On an empty stack the bound wraps to \<open>SIZE_MAX\<close> and the inner counter runs into the
  overflow: the enumerator has no defined result.
\<close>

lemma inner_loop_overflow:
  "INT_MAX < bound \<Longrightarrow> b1 \<le> INT_MAX \<Longrightarrow> inner_loop bound b2 b1 gd = None"
proof (induction bound b2 b1 gd rule: inner_loop.induct)
  case (1 bound b2 b1 gd)
  from "1.prems" have lt: "b1 < bound" by simp
  show ?case
  proof (cases "INT_MAX < b1 + 1")
    case True
    with lt show ?thesis by (subst inner_loop.simps) simp
  next
    case False
    then have "b1 + 1 \<le> INT_MAX" by simp
    from "1.IH" [OF lt False "1.prems"(1) this] lt False show ?thesis
      by (subst inner_loop.simps) simp
  qed
qed

lemma generate_ghosts_empty_stack: "generate_ghosts 0 = None"
proof -
  have "inner_loop SIZE_MAX 1 (1 + 2) [] = None"
    by (rule inner_loop_overflow) (simp_all add: INT_MAX_def SIZE_MAX_def)
  then show ?thesis
    unfolding generate_ghosts_def size_minus_1_def
    by (subst outer_loop.simps) (simp add: INT_MAX_def SIZE_MAX_def)
qed

lemma map_int_upt: "map int [a..<b] = [int a..int b - 1]"
proof (induction b)
  case 0
  then show ?case by simp
next
  case (Suc b)
  show ?case
  proof (cases "a \<le> b")
    case True
    then have "[int a..int (Suc b) - 1] = [int a..int b - 1] @ [int b]"
      using upto_rec2 [of "int a" "int b"] by simp
    with Suc True show ?thesis by simp
  next
    case False
    then show ?thesis by simp
  qed
qed

lemma length_nested_order:
  "length (nested_order n) = sum_list (map (\<lambda>b2. n - 1 - (b2 + 2)) [1..<n - 1])"
  by (simp add: nested_order_def length_concat comp_def)



lemma int_length_nested_order: "int (length (nested_order n)) = ghost_count (int n)"
proof -
  have "int (length (nested_order n)) =
      sum_list (map (\<lambda>b2. int (n - 1 - (b2 + 2))) [1..<n - 1])"
    by (simp add: length_nested_order sum_list_of_nat [symmetric] comp_def)
  also have "\<dots> = sum_list (map (\<lambda>b2. max 0 ((int n - 2) - (b2 + 2) + 1)) (map int [1..<n - 1]))"
  proof -
    have "int (n - 1 - (b2 + 2)) = max 0 ((int n - 2) - (int b2 + 2) + 1)" for b2
      by linarith
    then show ?thesis by (simp add: comp_def)
  qed
  also have "\<dots> = sum_list (map (\<lambda>b2. max 0 ((int n - 2) - (b2 + 2) + 1)) [1..int (n - 1) - 1])"
    by (simp add: map_int_upt)
  also have "\<dots> = ghost_count (int n)"
  proof (cases "3 \<le> n")
    case True
    then have "[1..int (n - 1) - 1] = [1..int n - 3] @ [int n - 2]"
      using upto_rec2 [of 1 "int n - 2"] by (simp add: of_nat_diff)
    then show ?thesis by (simp add: ghost_count_def)
  next
    case False
    then show ?thesis by (simp add: ghost_count_def)
  qed
  finally show ?thesis .
qed

lemma nested_order_members:
  "g \<in> set (nested_order n) \<Longrightarrow>
     bounce2 g + 2 \<le> bounce1 g \<and> 0 < bounce2 g \<and> bounce2 g < n - 1 \<and> 0 < bounce1 g \<and> bounce1 g < n - 1"
  by (auto simp: nested_order_def)

text \<open>
  Claim C1 (as amended). For a stack of \<open>n\<close> interfaces, \<open>1 \<le> n \<le> 2 ^ 24\<close>, the enumerator
  returns the records in the nested order (\<open>b2\<close> ascending outside, \<open>b1\<close> ascending from
  \<open>b2 + 2\<close> inside); their number is \<open>\<Sum>_{b2=1}^{n-3} max(0, (n-2) - (b2+2) + 1)\<close>, one more
  per value of \<open>b2\<close> than the specification's formula, because the inner bound \<open>n - 2\<close> is
  inclusive; every record has \<open>bounce1 \<ge> bounce2 + 2\<close> and both indices strictly between
  \<open>0\<close> and \<open>n - 1\<close>.
\<close>

theorem ghost_enumeration:
  assumes "1 \<le> n" and "n \<le> 2 ^ 24"
  shows "generate_ghosts n = Some (nested_order n)
       \<and> int (length (nested_order n)) = ghost_count (int n)
       \<and> (\<forall>g \<in> set (nested_order n).
            bounce2 g + 2 \<le> bounce1 g \<and> 0 < bounce2 g \<and> bounce2 g < n - 1
              \<and> 0 < bounce1 g \<and> bounce1 g < n - 1)"
proof -
  have "n \<le> INT_MAX" using assms(2) by (simp add: INT_MAX_def)
  then have "generate_ghosts n = Some (nested_order n)"
    using assms(1) by (rule generate_ghosts_eq [rotated])
  moreover note int_length_nested_order [of n]
  moreover have "\<forall>g \<in> set (nested_order n).
            bounce2 g + 2 \<le> bounce1 g \<and> 0 < bounce2 g \<and> bounce2 g < n - 1
              \<and> 0 < bounce1 g \<and> bounce1 g < n - 1"
    using nested_order_members by blast
  ultimately show ?thesis by blast
qed

text \<open>The enumerator at five interfaces, and the count at the 29 interfaces of the Nikon table.\<close>

lemma nested_order_5: "nested_order 5 = [\<lparr>bounce1 = 3, bounce2 = 1\<rparr>]"
  by code_simp

lemma nested_order_29: "length (nested_order 29) = 325"
  by code_simp

theorem ghost_enumeration_witness:
  "generate_ghosts 5 = Some [\<lparr>bounce1 = 3, bounce2 = 1\<rparr>] \<and> ghost_count 5 = 1"
  using ghost_enumeration [of 5] by (simp add: nested_order_5)

text \<open>
  The count of claim C1 as the specification states it fails: five interfaces give the one
  ghost \<open>(bounce1 = 3, bounce2 = 1)\<close> where the formula gives 0, and the 29 interfaces of the
  program give 325 ghosts where the formula gives 300.
\<close>

theorem ghost_count_counterexample:
  "map_option length (generate_ghosts 5) = Some 1 \<and> spec_ghost_count 5 = 0
   \<and> map_option length (generate_ghosts 29) = Some 325 \<and> spec_ghost_count 29 = 300"
proof -
  have g5: "generate_ghosts 5 = Some (nested_order 5)"
    by (rule generate_ghosts_eq) (simp_all add: INT_MAX_def)
  have g29: "generate_ghosts 29 = Some (nested_order 29)"
    by (rule generate_ghosts_eq) (simp_all add: INT_MAX_def)
  have s5: "spec_ghost_count 5 = 0" by code_simp
  have s29: "spec_ghost_count 29 = 300" by code_simp
  show ?thesis by (simp add: g5 g29 s5 s29 nested_order_5 nested_order_29)
qed

section \<open>Properties of the shader functions\<close>

lemma square_neg_glfloat: "(- r) * (- r) = r * (r :: glfloat)"
  by (cases r) simp_all

text \<open>
  Claim C9. The ray-sphere test does not see the sign of the radius: with radius \<open>r\<close> and
  with radius \<open>- r\<close>, \<open>intersectSphere\<close> returns the same hit flag and the same parameter
  \<open>t\<close>, for every origin, direction and centre (infinities and NaN included), because the
  radius enters only as \<^verbatim>\<open>sphereRadius * sphereRadius\<close>.
\<close>

theorem intersectSphere_radius_sign:
  "intersectSphere rayOrigin rayDir sphereCenter (- sphereRadius) =
   intersectSphere rayOrigin rayDir sphereCenter sphereRadius"
  by (simp add: intersectSphere_def square_neg_glfloat)

text \<open>The value of \<open>fresnel\<close> on finite arguments with a non-zero index sum, in the exact
  arithmetic of \<open>glfloat\<close>.\<close>

lemma fresnel_Fin:
  "n1 + n2 \<noteq> 0 \<Longrightarrow> c \<le> 1 \<Longrightarrow>
   fresnel (Fin c) (Fin n1) (Fin n2) =
     Fin (((n1 - n2) / (n1 + n2))\<^sup>2 + (1 - ((n1 - n2) / (n1 + n2))\<^sup>2) * (1 - c) ^ 5)"
  by (simp add: fresnel_def minus_glfloat_def Let_def power2_eq_square)

text \<open>
  Claim C6 (as amended). For equal finite indices \<open>n \<noteq> 0\<close> and a cosine
  \<open>0 \<le> cosTheta \<le> 1\<close>, the term \<open>r0\<close> vanishes and
  \<open>fresnel(cosTheta, n, n) = (1 - cosTheta)^5\<close>: the grazing term of Schlick's formula stays,
  and the result is 0 at \<open>cosTheta = 1\<close> only.
\<close>

theorem fresnel_equal_indices:
  assumes "n \<noteq> 0" and "0 \<le> c" and "c \<le> 1"
  shows "fresnel (Fin c) (Fin n) (Fin n) = Fin ((1 - c) ^ 5)
       \<and> (fresnel (Fin c) (Fin n) (Fin n) = Fin 0 \<longleftrightarrow> c = 1)"
  using assms by (simp add: fresnel_Fin)

theorem fresnel_equal_indices_witness:
  "fresnel (Fin (1 / 2)) (Fin (3 / 2)) (Fin (3 / 2)) = Fin (1 / 32)"
  using fresnel_equal_indices [of "3 / 2" "1 / 2"] by (simp add: power_divide)

text \<open>Claim C6 as stated fails: \<open>fresnel(0.5, 1.5, 1.5)\<close> is \<open>0.5^5\<close>, not 0.\<close>

theorem fresnel_equal_indices_counterexample:
  "fresnel (Fin (1 / 2)) (Fin (3 / 2)) (Fin (3 / 2)) \<noteq> Fin 0"
  by (simp add: fresnel_def minus_glfloat_def Let_def)

text \<open>
  Claim C7 (as amended). \<open>fresnel\<close> has no guard: for finite indices with \<open>n1 + n2 = 0\<close>
  and a cosine \<open>0 \<le> cosTheta \<le> 1\<close>, the quotient \<^verbatim>\<open>(n1 - n2) / (n1 + n2)\<close> is a division
  by zero, \<open>r0\<close> is an infinity or a NaN and not 0, and the function returns NaN.
\<close>

theorem fresnel_zero_sum:
  assumes "n1 + n2 = 0" and "0 \<le> c" and "c \<le> 1"
  shows "\<not> is_finite ((Fin n1 - Fin n2) / (Fin n1 + Fin n2))
       \<and> fresnel (Fin c) (Fin n1) (Fin n2) = NaN"
proof (cases "n1 - n2 = 0")
  case True
  with assms show ?thesis
    by (simp add: fresnel_def minus_glfloat_def Let_def is_finite_def)
next
  case False
  with assms show ?thesis
    by (simp add: fresnel_def minus_glfloat_def Let_def is_finite_def)
qed

theorem fresnel_zero_sum_witness:
  "\<not> is_finite ((Fin 1 - Fin (- 1)) / (Fin 1 + Fin (- 1)))
 \<and> fresnel (Fin (1 / 2)) (Fin 1) (Fin (- 1)) = NaN"
  using fresnel_zero_sum [of 1 "- 1" "1 / 2"] by simp

text \<open>Claim C7 as stated fails: \<open>fresnel(1, 1, -1)\<close> divides 2 by 0 and is not finite.\<close>

theorem fresnel_zero_sum_counterexample:
  "\<not> is_finite (fresnel (Fin 1) (Fin 1) (Fin (- 1)))"
  by (simp add: fresnel_def minus_glfloat_def Let_def is_finite_def)

section \<open>The flat buffer index of the tracer and of the geometry mapper\<close>

text \<open>
  Claim C2, evaluated on the code at ghost 1, grid cell \<open>(x, y) = (2, 3)\<close>. The tracer
  stores that cell's record at \<open>1 * 256 + 3 * 16 + 2 = 306\<close>: its resolution is the
  literal 16. The vertex shader, run with the host's \<open>patch_tessellation = 32\<close>, maps vertex
  570 to the same cell and reads index \<open>1 * 1024 + 3 * 32 + 2 = 1122\<close>. The two shaders do
  not use the same resolution and the indices differ.
\<close>

theorem index_mismatch:
  "vertex_idx 1 2 3 = 306
 \<and> grid_cell patch_tessellation 570 = Inr (2, 3)
 \<and> source_idx patch_tessellation 1 2 3 = 1122"
  by (simp add: vertex_idx_def grid_cell_def source_idx_def patch_tessellation_def int32_def
      quad_offsets_def)

section \<open>Properties of the interface array\<close>

lemma convert_loop_append:
  "convert_loop lens m t acc = acc @ convert_loop lens m t []"
proof (induction m arbitrary: t acc)
  case 0
  show ?case by simp
next
  case (Suc m)
  show ?case
    apply (simp only: convert_loop.simps Let_def append_Nil)
    apply (subst Suc.IH)
    apply (subst (2) Suc.IH)
    apply simp
    done
qed

lemma convert_loop_Suc:
  "convert_loop lens (Suc m) t [] =
     \<lparr>center = Vec3 (Fin 0) (Fin 0) (t + pf_d (lens ! m) - pf_r (lens ! m)),
      radius = pf_r (lens ! m),
      li_n = Vec3 (if m = 0 then Fin 1 else pf_n (lens ! (m - 1))) (Fin 1) (pf_n (lens ! m)),
      sa = pf_h (lens ! m),
      d1 = pf_c (lens ! m),
      is_flat = (if pf_f (lens ! m) then Fin 1 else Fin 0),
      pos = t + pf_d (lens ! m),
      li_w = pf_w (lens ! m)\<rparr> # convert_loop lens m (t + pf_d (lens ! m)) []"
  apply (simp only: convert_loop.simps Let_def append_Nil)
  apply (subst convert_loop_append)
  apply simp
  done

lemma length_convert_loop: "length (convert_loop lens m t []) = m"
proof (induction m arbitrary: t)
  case 0
  show ?case by simp
next
  case (Suc m)
  show ?case by (subst convert_loop_Suc) (simp add: Suc.IH)
qed

lemma li_n_convert_loop:
  "k < m \<Longrightarrow> li_n (convert_loop lens m t [] ! k) =
     Vec3 (if m - 1 - k = 0 then Fin 1 else pf_n (lens ! (m - 2 - k))) (Fin 1)
          (pf_n (lens ! (m - 1 - k)))"
proof (induction m arbitrary: t k)
  case 0
  then show ?case by simp
next
  case (Suc m)
  show ?case
  proof (cases k)
    case 0
    then show ?thesis by (simp only: convert_loop_Suc) simp
  next
    case (Suc k')
    with Suc.prems have "k' < m" by simp
    from Suc.IH [OF this] Suc show ?thesis
      by (simp only: convert_loop_Suc) (simp add: numeral_2_eq_2)
  qed
qed

lemma pos_convert_loop:
  assumes "\<forall>j<m. \<exists>x\<ge>0. pf_d (lens ! j) = Fin x"
  shows "(\<forall>k<m. \<exists>p\<ge>t0. pos (convert_loop lens m (Fin t0) [] ! k) = Fin p)
       \<and> (\<forall>k. k + 1 < m \<longrightarrow> pos (convert_loop lens m (Fin t0) [] ! k)
                                 \<le> pos (convert_loop lens m (Fin t0) [] ! (k + 1)))"
  using assms
proof (induction m arbitrary: t0)
  case 0
  show ?case by simp
next
  case (Suc m)
  from Suc.prems obtain x where x: "0 \<le> x" "pf_d (lens ! m) = Fin x" by auto
  from Suc.prems have "\<forall>j<m. \<exists>x\<ge>0. pf_d (lens ! j) = Fin x" by simp
  from Suc.IH [OF this, of "t0 + x"]
  have IH1: "\<And>k. k < m \<Longrightarrow> \<exists>p\<ge>t0 + x. pos (convert_loop lens m (Fin (t0 + x)) [] ! k) = Fin p"
    and IH2: "\<And>k. k + 1 < m \<Longrightarrow> pos (convert_loop lens m (Fin (t0 + x)) [] ! k)
                                 \<le> pos (convert_loop lens m (Fin (t0 + x)) [] ! (k + 1))"
    by auto
  have step: "convert_loop lens (Suc m) (Fin t0) [] ! 0 = hd (convert_loop lens (Suc m) (Fin t0) [])"
    by (simp only: convert_loop_Suc) simp
  have pos0: "pos (convert_loop lens (Suc m) (Fin t0) [] ! 0) = Fin (t0 + x)"
    by (simp only: convert_loop_Suc x) simp
  have tail: "\<And>k. convert_loop lens (Suc m) (Fin t0) [] ! Suc k =
                  convert_loop lens m (Fin (t0 + x)) [] ! k"
    by (simp only: convert_loop_Suc x) simp
  show ?case
  proof (intro conjI allI impI)
    fix k assume "k < Suc m"
    show "\<exists>p\<ge>t0. pos (convert_loop lens (Suc m) (Fin t0) [] ! k) = Fin p"
    proof (cases k)
      case 0
      with pos0 x show ?thesis by auto
    next
      case (Suc k')
      with \<open>k < Suc m\<close> have "k' < m" by simp
      from IH1 [OF this] obtain p where "t0 + x \<le> p"
        "pos (convert_loop lens m (Fin (t0 + x)) [] ! k') = Fin p" by auto
      with x Suc tail show ?thesis by auto
    qed
  next
    fix k assume k: "k + 1 < Suc m"
    show "pos (convert_loop lens (Suc m) (Fin t0) [] ! k)
            \<le> pos (convert_loop lens (Suc m) (Fin t0) [] ! (k + 1))"
    proof (cases k)
      case 0
      from k 0 have "0 < m" by simp
      from IH1 [OF this] obtain p where "t0 + x \<le> p"
        "pos (convert_loop lens m (Fin (t0 + x)) [] ! 0) = Fin p" by auto
      with 0 pos0 tail [of 0] show ?thesis by simp
    next
      case (Suc k')
      with k have "k' + 1 < m" by simp
      from IH2 [OF this] Suc tail show ?thesis by simp
    qed
  qed
qed

text \<open>
  Claim C5 (as amended). For a prescription whose thicknesses are finite and not negative,
  the built array has one interface per entry; its axial positions do not decrease from
  one interface to the next; and the refractive indices chain in the reverse direction of
  the one stated: the incident-side index \<^verbatim>\<open>n.x\<close> of interface \<open>i\<close> equals the exit-side index
  \<^verbatim>\<open>n.z\<close> of interface \<open>i + 1\<close>, because the array lists the prescription back to front. The
  incident side of the last interface is vacuum, 1.0.
\<close>

theorem interface_array_invariant:
  assumes "\<forall>e \<in> set lens. Fin 0 \<le> pf_d e \<and> pf_d e < PInf"
  shows "length (build_interfaces lens) = length lens
       \<and> (\<forall>i. i + 1 < length lens \<longrightarrow>
             pos (build_interfaces lens ! i) \<le> pos (build_interfaces lens ! (i + 1))
           \<and> vec_x (li_n (build_interfaces lens ! i)) = vec_z (li_n (build_interfaces lens ! (i + 1))))
       \<and> (lens \<noteq> [] \<longrightarrow> vec_x (li_n (last (build_interfaces lens))) = Fin 1)"
proof (intro conjI allI impI)
  show len: "length (build_interfaces lens) = length lens"
    by (simp add: build_interfaces_def length_convert_loop)
  have d: "\<forall>j<length lens. \<exists>x\<ge>0. pf_d (lens ! j) = Fin x"
  proof (intro allI impI)
    fix j assume "j < length lens"
    with assms have "Fin 0 \<le> pf_d (lens ! j) \<and> pf_d (lens ! j) < PInf" by simp
    then show "\<exists>x\<ge>0. pf_d (lens ! j) = Fin x" by (cases "pf_d (lens ! j)") simp_all
  qed
  {
    fix i assume i: "i + 1 < length lens"
    from pos_convert_loop [OF d, of 0] i
    show "pos (build_interfaces lens ! i) \<le> pos (build_interfaces lens ! (i + 1))"
      by (simp add: build_interfaces_def)
    from i have "i < length lens" "i + 1 < length lens" by simp_all
    then show "vec_x (li_n (build_interfaces lens ! i)) = vec_z (li_n (build_interfaces lens ! (i + 1)))"
      using i by (simp add: build_interfaces_def li_n_convert_loop numeral_2_eq_2)
  }
  assume ne: "lens \<noteq> []"
  then have "last (build_interfaces lens) = build_interfaces lens ! (length lens - 1)"
    using len by (metis last_conv_nth length_0_conv)
  with ne show "vec_x (li_n (last (build_interfaces lens))) = Fin 1"
    by (simp add: build_interfaces_def li_n_convert_loop)
qed


text \<open>The array built from the Nikon table.\<close>

lemma length_nikon_lens: "length nikon_lens = 29"
  by (simp add: nikon_lens_def)

lemma length_lens_interfaces: "length lens_interfaces = 29"
  by (simp add: lens_interfaces_def build_interfaces_def length_convert_loop length_nikon_lens)

lemma nikon_indices:
  "pf_n (nikon_lens ! 28) = Fin 1" "pf_n (nikon_lens ! 27) = Fin 1"
  "pf_n (nikon_lens ! 26) = Fin 1.80454"
  by (simp_all add: nikon_lens_def patent_def)

lemma lens_interfaces_0_1:
  "li_n (lens_interfaces ! 0) = Vec3 (Fin 1) (Fin 1) (Fin 1)"
  "li_n (lens_interfaces ! 1) = Vec3 (Fin 1.80454) (Fin 1) (Fin 1)"
  by (simp_all add: lens_interfaces_def build_interfaces_def length_nikon_lens
      li_n_convert_loop nikon_indices)

theorem interface_array_invariant_witness:
  "length lens_interfaces = 29
 \<and> pos (lens_interfaces ! 1) \<le> pos (lens_interfaces ! 2)
 \<and> vec_x (li_n (lens_interfaces ! 1)) = vec_z (li_n (lens_interfaces ! 2))
 \<and> vec_x (li_n (last lens_interfaces)) = Fin 1"
proof -
  have d: "\<forall>e \<in> set nikon_lens. Fin 0 \<le> pf_d e \<and> pf_d e < PInf"
    by (simp add: nikon_lens_def patent_def)
  have i: "1 + 1 < length nikon_lens" and ne: "nikon_lens \<noteq> []"
    by (simp_all add: nikon_lens_def)
  from interface_array_invariant [OF d] i ne show ?thesis
    unfolding lens_interfaces_def length_nikon_lens by (metis one_add_one)
qed

text \<open>
  Claim C5 as stated fails on the program's own array: interface 0 has exit-side index 1.0
  (entry 28 of the table) and interface 1 has incident-side index 1.80454 (entry 26).
\<close>

theorem interface_chain_counterexample:
  "vec_z (li_n (lens_interfaces ! 0)) = Fin 1
 \<and> vec_x (li_n (lens_interfaces ! 1)) = Fin 1.80454
 \<and> \<not> spec_chained lens_interfaces"
proof -
  have "\<not> spec_chained lens_interfaces"
  proof
    assume "spec_chained lens_interfaces"
    then have "\<forall>i \<in> set [0..<length lens_interfaces - 1].
        vec_z (li_n (lens_interfaces ! i)) = vec_x (li_n (lens_interfaces ! (i + 1)))"
      unfolding spec_chained_def by (simp only: list_all_iff)
    moreover have "0 \<in> set [0..<length lens_interfaces - 1]"
      by (simp add: length_lens_interfaces)
    ultimately have "vec_z (li_n (lens_interfaces ! 0)) = vec_x (li_n (lens_interfaces ! (0 + 1)))"
      by (rule bspec)
    then have "vec_z (li_n (lens_interfaces ! 0)) = vec_x (li_n (lens_interfaces ! 1))"
      by simp
    then have "Fin 1 = Fin 1.80454"
      by (simp only: lens_interfaces_0_1 vec3.sel)
    then show False by simp
  qed
  moreover have "vec_z (li_n (lens_interfaces ! 0)) = Fin 1"
    by (simp only: lens_interfaces_0_1 vec3.sel)
  moreover have "vec_x (li_n (lens_interfaces ! 1)) = Fin 1.80454"
    by (simp only: lens_interfaces_0_1 vec3.sel)
  ultimately show ?thesis by blast
qed

section \<open>Bounds checks of the two shaders\<close>

lemma int32_id: "- (2 ^ 31) \<le> k \<Longrightarrow> k < 2 ^ 31 \<Longrightarrow> int32 k = k"
  by (simp add: int32_def signed_take_bit_int_eq_self)

lemma main_no_write:
  "length vertex_data \<le> vertex_idx (fst thread_id div 16) (fst thread_id mod 16) (snd thread_id)
   \<Longrightarrow> main globals lens ghost_data thread_id vertex_data = Inr vertex_data"
  by (simp add: main_def Let_def)

lemma main_no_fault: "\<exists>out. main globals lens ghost_data thread_id vertex_data = Inr out"
  by (simp add: main_def Let_def store_vertex_def)

lemma quad_offsets_range:
  "k < 6 \<Longrightarrow> fst (quad_offsets ! k) \<in> {0, 1} \<and> snd (quad_offsets ! k) \<in> {0, 1}"
proof -
  assume "k < 6"
  then have "k \<in> {0, 1, 2, 3, 4, 5}" by auto
  then show ?thesis by (auto simp: quad_offsets_def)
qed

lemma grid_cell_defined:
  assumes tess: "2 \<le> tess" "tess < 2 ^ 31" and vid: "int gl_VertexID < 2 ^ 31"
  shows "\<exists>lx ly. grid_cell tess gl_VertexID = Inr (lx, ly) \<and> 0 \<le> lx \<and> lx \<le> tess - 1
           \<and> 0 \<le> ly \<and> ly \<le> tess - 1"
proof -
  have t1: "int32 (tess - 1) = tess - 1" using tess by (simp add: int32_id)
  define k where "k = nat (int gl_VertexID mod 6)"
  have "k < 6" by (simp add: k_def nat_less_iff)
  from quad_offsets_range [OF this]
  have ox: "0 \<le> fst (quad_offsets ! k)" "fst (quad_offsets ! k) \<le> 1"
    and oy: "0 \<le> snd (quad_offsets ! k)" "snd (quad_offsets ! k) \<le> 1" by auto
  define gx where "gx = (int gl_VertexID div 6) mod (tess - 1)"
  define gy where "gy = (int gl_VertexID div 6) div (tess - 1)"
  have gx: "0 \<le> gx" "gx < tess - 1" using tess by (simp_all add: gx_def)
  have tri: "0 \<le> int gl_VertexID div 6" "int gl_VertexID div 6 < 2 ^ 31 - 1"
    using vid by simp_all
  have gy0: "0 \<le> gy" using tess tri by (simp add: gy_def pos_imp_zdiv_nonneg_iff)
  have "gy \<le> int gl_VertexID div 6"
    unfolding gy_def using zdiv_mono2 [of "int gl_VertexID div 6" 1 "tess - 1"] tess tri(1) by simp
  with tri have gy1: "gy < 2 ^ 31 - 1" by simp
  have wx: "int32 (gx + fst (quad_offsets ! k)) = gx + fst (quad_offsets ! k)"
    using gx ox tess by (intro int32_id) simp_all
  have wy: "int32 (gy + snd (quad_offsets ! k)) = gy + snd (quad_offsets ! k)"
    using gy0 gy1 oy by (intro int32_id) simp_all
  have "grid_cell tess gl_VertexID =
      Inr (min (gx + fst (quad_offsets ! k)) (tess - 1), min (gy + snd (quad_offsets ! k)) (tess - 1))"
    using tess by (simp add: grid_cell_def t1 Let_def k_def [symmetric] gx_def [symmetric]
        gy_def [symmetric] wx wy)
  moreover have "0 \<le> min (gx + fst (quad_offsets ! k)) (tess - 1)"
    "0 \<le> min (gy + snd (quad_offsets ! k)) (tess - 1)"
    using gx gy0 ox oy tess by simp_all
  moreover have "min (gx + fst (quad_offsets ! k)) (tess - 1) \<le> tess - 1"
    "min (gy + snd (quad_offsets ! k)) (tess - 1) \<le> tess - 1"
    by simp_all
  ultimately show ?thesis by blast
qed

lemma source_idx_exact:
  assumes "2 \<le> tess" "0 \<le> ghost_id" "(ghost_id + 1) * tess * tess < 2 ^ 31"
    and "0 \<le> lx" "lx \<le> tess - 1" "0 \<le> ly" "ly \<le> tess - 1"
  shows "source_idx tess ghost_id lx ly = ghost_id * (tess * tess) + ly * tess + lx"
    and "0 \<le> source_idx tess ghost_id lx ly"
proof -
  have tt: "0 \<le> tess * tess" by simp
  have g: "0 \<le> ghost_id * (tess * tess)" using assms(2) by simp
  have "tess * tess \<le> (ghost_id + 1) * (tess * tess)"
    using assms(2) tt by (simp add: mult_le_cancel_right1)
  then have tt_lt: "tess * tess < 2 ^ 31" using assms(3) by (simp add: mult.assoc)
  have "ly * tess \<le> (tess - 1) * tess" using assms by (intro mult_right_mono) simp_all
  then have cell: "ly * tess + lx \<le> tess * tess - 1" using assms(5)
    by (simp add: algebra_simps)
  have l0: "0 \<le> ly * tess" using assms by simp
  have total: "ghost_id * (tess * tess) + (ly * tess + lx) < 2 ^ 31"
    using cell assms(3) by (simp add: algebra_simps)
  have w1: "int32 (tess * tess) = tess * tess"
    by (rule int32_id) (use tt tt_lt in linarith)+
  have w2: "int32 (ly * tess) = ly * tess" by (rule int32_id) (use tt l0 cell assms(4) tt_lt in linarith)+
  have w3: "int32 (ly * tess + lx) = ly * tess + lx"
    by (rule int32_id) (use tt l0 cell assms(4) tt_lt in linarith)+
  have w4: "int32 (ghost_id * (tess * tess)) = ghost_id * (tess * tess)"
    by (rule int32_id) (use tt g total l0 assms(4) in linarith)+
  have w5: "int32 (ghost_id * (tess * tess) + (ly * tess + lx)) =
      ghost_id * (tess * tess) + (ly * tess + lx)"
    by (rule int32_id) (use tt g total l0 assms(4) in linarith)+
  show "source_idx tess ghost_id lx ly = ghost_id * (tess * tess) + ly * tess + lx"
    by (simp add: source_idx_def Let_def w1 w2 w3 w4 w5)
  then show "0 \<le> source_idx tess ghost_id lx ly" using g l0 assms(4) by simp
qed


lemma sentinel_outside:
  "vs_intensity sentinel = Fin 0
 \<and> vec4_z (gl_Position sentinel) < - vec4_w (gl_Position sentinel)"
  by (simp add: sentinel_def)

text \<open>
  Claim C8 (as amended). An invocation of the tracer whose computed index is at or beyond
  the length of the vertex buffer returns without a store and without a fault: the buffer
  is as it was. A vertex of the vertex shader whose source index is at or beyond the
  length of the buffer gets the sentinel, whose intensity is 0 and whose depth \<open>z = -10\<close>
  lies outside the clip volume \<open>- w \<le> z \<le> w\<close> with \<open>w = 1\<close>. The shader has no test for an
  index below 0. For a tessellation of at least 2, a ghost id that is not negative and sizes
  that fit 32-bit integers, every vertex has a grid cell and its source index is not
  negative, so that the read, when it happens, is inside the buffer.
\<close>

theorem out_of_range_index:
  "(length vertex_data \<le> vertex_idx (fst thread_id div 16) (fst thread_id mod 16) (snd thread_id)
      \<longrightarrow> main globals lens ghost_data thread_id vertex_data = Inr vertex_data)
 \<and> (\<forall>lx ly. grid_cell tess gl_VertexID = Inr (lx, ly)
         \<and> int (length vertex_data) \<le> source_idx tess ghost_id lx ly
       \<longrightarrow> ghost_vertex_main tess ghost_id gl_VertexID vertex_data = Inr sentinel)
 \<and> vs_intensity sentinel = Fin 0
 \<and> vec4_z (gl_Position sentinel) < - vec4_w (gl_Position sentinel)
 \<and> (2 \<le> tess \<and> 0 \<le> ghost_id \<and> (ghost_id + 1) * tess * tess < 2 ^ 31
       \<and> int gl_VertexID < 2 ^ 31
     \<longrightarrow> (\<exists>lx ly. grid_cell tess gl_VertexID = Inr (lx, ly)
           \<and> 0 \<le> source_idx tess ghost_id lx ly
           \<and> (source_idx tess ghost_id lx ly < int (length vertex_data)
                \<longrightarrow> (\<exists>out. ghost_vertex_main tess ghost_id gl_VertexID vertex_data = Inr out
                       \<and> vs_intensity out
                           = vec4_z (vertex_data ! nat (source_idx tess ghost_id lx ly))))))"
proof -
  have a: "\<forall>lx ly. grid_cell tess gl_VertexID = Inr (lx, ly)
         \<and> int (length vertex_data) \<le> source_idx tess ghost_id lx ly
       \<longrightarrow> ghost_vertex_main tess ghost_id gl_VertexID vertex_data = Inr sentinel"
    by (simp add: ghost_vertex_main_def Let_def)
  have b: "2 \<le> tess \<and> 0 \<le> ghost_id \<and> (ghost_id + 1) * tess * tess < 2 ^ 31
       \<and> int gl_VertexID < 2 ^ 31
     \<longrightarrow> (\<exists>lx ly. grid_cell tess gl_VertexID = Inr (lx, ly)
           \<and> 0 \<le> source_idx tess ghost_id lx ly
           \<and> (source_idx tess ghost_id lx ly < int (length vertex_data)
                \<longrightarrow> (\<exists>out. ghost_vertex_main tess ghost_id gl_VertexID vertex_data = Inr out
                       \<and> vs_intensity out
                           = vec4_z (vertex_data ! nat (source_idx tess ghost_id lx ly)))))"
  proof
    assume r: "2 \<le> tess \<and> 0 \<le> ghost_id \<and> (ghost_id + 1) * tess * tess < 2 ^ 31
       \<and> int gl_VertexID < 2 ^ 31"
    then have t2: "2 \<le> tess" and g0: "0 \<le> ghost_id"
      and sz: "(ghost_id + 1) * tess * tess < 2 ^ 31" and vid: "int gl_VertexID < 2 ^ 31"
      by simp_all
    have "tess * tess \<le> (ghost_id + 1) * (tess * tess)"
      using g0 by (simp add: mult_le_cancel_right1)
    moreover have "tess \<le> tess * tess" using t2 by (simp add: mult_le_cancel_left1)
    ultimately have tess: "tess < 2 ^ 31" using sz by (simp add: mult.assoc)
    from grid_cell_defined [OF t2 tess vid]
    obtain lx ly where cell: "grid_cell tess gl_VertexID = Inr (lx, ly)"
      and c: "0 \<le> lx" "lx \<le> tess - 1" "0 \<le> ly" "ly \<le> tess - 1" by blast
    have nonneg: "0 \<le> source_idx tess ghost_id lx ly"
      by (rule source_idx_exact(2) [OF t2 g0 sz c])
    have "source_idx tess ghost_id lx ly < int (length vertex_data)
             \<longrightarrow> (\<exists>out. ghost_vertex_main tess ghost_id gl_VertexID vertex_data = Inr out
                   \<and> vs_intensity out = vec4_z (vertex_data ! nat (source_idx tess ghost_id lx ly)))"
      using nonneg by (simp add: ghost_vertex_main_def cell Let_def)
    with cell nonneg show "\<exists>lx ly. grid_cell tess gl_VertexID = Inr (lx, ly)
           \<and> 0 \<le> source_idx tess ghost_id lx ly
           \<and> (source_idx tess ghost_id lx ly < int (length vertex_data)
                \<longrightarrow> (\<exists>out. ghost_vertex_main tess ghost_id gl_VertexID vertex_data = Inr out
                       \<and> vs_intensity out
                           = vec4_z (vertex_data ! nat (source_idx tess ghost_id lx ly))))"
      by blast
  qed
  from main_no_write [of vertex_data thread_id globals lens ghost_data] a b sentinel_outside
  show ?thesis by blast
qed


theorem out_of_range_index_witness:
  "fst (11 :: nat, 12 :: nat) div 16 < length [example_ghost]
 \<and> snd (11 :: nat, 12 :: nat) < 16
 \<and> bounce1 example_ghost < length example_lens
 \<and> bounce2 example_ghost < length example_lens
 \<and> vertex_idx 0 11 12 = 203
 \<and> main example_globals example_lens [example_ghost] (11, 12) (stale_buffer 203)
     = Inr (stale_buffer 203)
 \<and> grid_cell 32 5764 = Inr (31, 31)
 \<and> source_idx 32 9 31 31 = 10239
 \<and> ghost_vertex_main 32 9 5764 (stale_buffer 10239) = Inr sentinel
 \<and> (\<exists>out. ghost_vertex_main 32 9 5764 (stale_buffer 10240) = Inr out \<and> vs_intensity out = Fin 0)"
proof -
  have guards: "fst (11 :: nat, 12 :: nat) div 16 < length [example_ghost]"
    "snd (11 :: nat, 12 :: nat) < 16"
    "bounce1 example_ghost < length example_lens" "bounce2 example_ghost < length example_lens"
    by (simp_all add: example_ghost_def example_lens_def)
  have idx: "vertex_idx 0 11 12 = 203" by (simp add: vertex_idx_def)
  have cell: "grid_cell 32 5764 = Inr (31, 31)"
    by (simp add: grid_cell_def int32_def quad_offsets_def)
  have src: "source_idx 32 9 31 31 = 10239"
    by (simp add: source_idx_def int32_def)
  have tracer: "main example_globals example_lens [example_ghost] (11, 12) (stale_buffer 203)
      = Inr (stale_buffer 203)"
    using out_of_range_index [where vertex_data = "stale_buffer 203" and thread_id = "(11, 12)"
        and globals = example_globals and lens = example_lens and ghost_data = "[example_ghost]"]
    by (simp add: idx stale_buffer_def)
  have mapper: "ghost_vertex_main 32 9 5764 (stale_buffer 10239) = Inr sentinel"
    using out_of_range_index [where vertex_data = "stale_buffer 10239" and tess = 32
        and gl_VertexID = 5764 and ghost_id = 9]
    by (simp add: cell src stale_buffer_def)
  have "\<exists>out. ghost_vertex_main 32 9 5764 (stale_buffer 10240) = Inr out
      \<and> vs_intensity out = vec4_z (stale_buffer 10240 ! nat 10239)"
    using out_of_range_index [where vertex_data = "stale_buffer 10240" and tess = 32
        and gl_VertexID = 5764 and ghost_id = 9]
    by (simp add: cell src stale_buffer_def)
  then have inside: "\<exists>out. ghost_vertex_main 32 9 5764 (stale_buffer 10240) = Inr out
      \<and> vs_intensity out = Fin 0"
    by (simp add: stale_buffer_def)
  from guards idx tracer cell src mapper inside show ?thesis by blast
qed

text \<open>
  Claim C8 as stated fails in the vertex shader. With the uniform \<^verbatim>\<open>ghost_id = -1.0\<close> the
  source index of vertex 0 is \<open>- 1024\<close>, outside the buffer; the test
  \<^verbatim>\<open>vertex_idx >= vertex_data.length()\<close> is false for it, and the shader goes on to read
  \<^verbatim>\<open>vertex_data[-1024]\<close> where the claim has the sentinel.
\<close>

theorem out_of_range_index_counterexample:
  "grid_cell patch_tessellation 0 = Inr (0, 0)
 \<and> source_idx patch_tessellation (- 1) 0 0 = - 1024
 \<and> ghost_vertex_main patch_tessellation (- 1) 0 (stale_buffer (vertex_buffer_length 1))
     = Inl OutOfBoundsRead"
proof -
  have cell: "grid_cell patch_tessellation 0 = Inr (0, 0)"
    by (simp add: grid_cell_def patch_tessellation_def int32_def quad_offsets_def)
  have src: "source_idx patch_tessellation (- 1) 0 0 = - 1024"
    by (simp add: source_idx_def patch_tessellation_def int32_def)
  have "ghost_vertex_main patch_tessellation (- 1) 0 (stale_buffer (vertex_buffer_length 1))
     = Inl OutOfBoundsRead"
    by (simp add: ghost_vertex_main_def cell src Let_def)
  with cell src show ?thesis by blast
qed

section \<open>The two loops of the tracer\<close>

text \<open>The loop equations, one per exit of the loop body.\<close>

lemma trace_loop_done:
  "\<not> (i < b \<and> i < length lens) \<Longrightarrow> trace_loop lens b i st = st"
  by (subst trace_loop.simps) (simp only: if_False)

lemma trace_loop_miss:
  "i < b \<Longrightarrow> i < length lens \<Longrightarrow> trace_step (lens ! i) (i = b - 1) st = None
   \<Longrightarrow> trace_loop lens b i st = st\<lparr>intensity := Fin 0\<rparr>"
  by (subst trace_loop.simps) simp

lemma trace_loop_hit:
  "i < b \<Longrightarrow> i < length lens \<Longrightarrow> trace_step (lens ! i) (i = b - 1) st = Some st'
   \<Longrightarrow> trace_loop lens b i st = trace_loop lens b (i + 1) st'"
  by (subst trace_loop.simps) simp

lemma survives_done:
  "\<not> (i < b \<and> i < length lens) \<Longrightarrow> survives lens b i st"
  by (subst survives.simps) (simp only: if_False)

lemma survives_miss:
  "i < b \<Longrightarrow> i < length lens \<Longrightarrow> trace_step (lens ! i) (i = b - 1) st = None
   \<Longrightarrow> \<not> survives lens b i st"
  by (subst survives.simps) simp

lemma survives_hit:
  "i < b \<Longrightarrow> i < length lens \<Longrightarrow> trace_step (lens ! i) (i = b - 1) st = Some st'
   \<Longrightarrow> survives lens b i st = survives lens b (i + 1) st'"
  by (subst survives.simps) simp

text \<open>The ray of invocation \<open>(11, 12)\<close> through \<open>example_lens\<close>, step by step.\<close>

lemma sqrt_900: "sqrt 900 = 30"
  by (rule real_sqrt_unique) simp_all

lemma sqrt_4225_16: "sqrt (4225 / 16) = 65 / 4"
  by (rule real_sqrt_unique) (simp_all add: power2_eq_square)

lemma initial_ray_example:
  "initial_ray example_globals 11 12 =
     \<lparr>current_pos = Vec3 (Fin (15 / 4)) (Fin 5) (Fin (- 100)),
      current_dir = Vec3 (Fin 0) (Fin 0) (Fin 1), intensity = Fin 1\<rparr>"
  by (simp add: initial_ray_def example_globals_def aperture_coord_def normalize_vec3_def
      vdiv_def vlength_def dot_def minus_glfloat_def)

lemma step0:
  "trace_step (sphere_at 0 20) False
     \<lparr>current_pos = Vec3 (Fin (15 / 4)) (Fin 5) (Fin (- 100)),
      current_dir = Vec3 (Fin 0) (Fin 0) (Fin 1), intensity = Fin 1\<rparr> =
   Some \<lparr>current_pos = Vec3 (Fin (15 / 4)) (Fin 5) (Fin 5),
      current_dir = Vec3 (Fin 0) (Fin 0) (Fin 1), intensity = Fin 1\<rparr>"
  by (simp add: trace_step_def sphere_at_def intersectSphere_def vsub_def vadd_def vscale_def dot_def
      minus_glfloat_def Let_def sqrt_900)


lemma step1:
  "trace_step (sphere_at 0 30) False
     \<lparr>current_pos = Vec3 (Fin (15 / 4)) (Fin 5) (Fin 5),
      current_dir = Vec3 (Fin 0) (Fin 0) (Fin 1), intensity = Fin 1\<rparr> =
   Some \<lparr>current_pos = Vec3 (Fin (15 / 4)) (Fin 5) (Fin 15),
      current_dir = Vec3 (Fin 0) (Fin 0) (Fin 1), intensity = Fin 1\<rparr>"
  by (simp add: trace_step_def sphere_at_def intersectSphere_def vsub_def vadd_def vscale_def dot_def
      minus_glfloat_def Let_def sqrt_900)

lemma step2:
  "trace_step (sphere_at 0 40) True
     \<lparr>current_pos = Vec3 (Fin (15 / 4)) (Fin 5) (Fin 15),
      current_dir = Vec3 (Fin 0) (Fin 0) (Fin 1), intensity = Fin 1\<rparr> =
   Some \<lparr>current_pos = Vec3 (Fin (15 / 4)) (Fin 5) (Fin 25),
      current_dir = Vec3 (Fin (72 / 169)) (Fin (96 / 169)) (Fin (- 119 / 169)),
      intensity = Fin (371317 / 92823250)\<rparr>"
  by (simp add: trace_step_def sphere_at_def intersectSphere_def vsub_def vadd_def vscale_def dot_def
      minus_glfloat_def Let_def sqrt_900 sqrt_4225_16 normalize_vec3_def vdiv_def vlength_def
      reflect_def fresnel_def power_divide)


lemma phase1_example:
  "trace_loop example_lens 3 0 (initial_ray example_globals 11 12) =
     \<lparr>current_pos = Vec3 (Fin (15 / 4)) (Fin 5) (Fin 25),
      current_dir = Vec3 (Fin (72 / 169)) (Fin (96 / 169)) (Fin (- 119 / 169)),
      intensity = Fin (371317 / 92823250)\<rparr>"
proof -
  have "trace_loop example_lens 3 0 (initial_ray example_globals 11 12) =
      trace_loop example_lens 3 (0 + 1)
        \<lparr>current_pos = Vec3 (Fin (15 / 4)) (Fin 5) (Fin 5),
         current_dir = Vec3 (Fin 0) (Fin 0) (Fin 1), intensity = Fin 1\<rparr>"
    by (rule trace_loop_hit) (simp_all add: example_lens_def initial_ray_example step0)
  also have "\<dots> = trace_loop example_lens 3 (1 + 1)
        \<lparr>current_pos = Vec3 (Fin (15 / 4)) (Fin 5) (Fin 15),
         current_dir = Vec3 (Fin 0) (Fin 0) (Fin 1), intensity = Fin 1\<rparr>"
    unfolding add_0 by (rule trace_loop_hit) (simp_all add: example_lens_def step1)
  also have "\<dots> = trace_loop example_lens 3 (2 + 1)
        \<lparr>current_pos = Vec3 (Fin (15 / 4)) (Fin 5) (Fin 25),
         current_dir = Vec3 (Fin (72 / 169)) (Fin (96 / 169)) (Fin (- 119 / 169)),
         intensity = Fin (371317 / 92823250)\<rparr>"
    unfolding one_add_one by (rule trace_loop_hit) (simp_all add: example_lens_def step2)
  also have "\<dots> = \<lparr>current_pos = Vec3 (Fin (15 / 4)) (Fin 5) (Fin 25),
         current_dir = Vec3 (Fin (72 / 169)) (Fin (96 / 169)) (Fin (- 119 / 169)),
         intensity = Fin (371317 / 92823250)\<rparr>"
    by (rule trace_loop_done) simp
  finally show ?thesis .
qed

lemma survives_example: "survives example_lens 3 0 (initial_ray example_globals 11 12)"
proof -
  have "survives example_lens 3 0 (initial_ray example_globals 11 12) =
      survives example_lens 3 (0 + 1)
        \<lparr>current_pos = Vec3 (Fin (15 / 4)) (Fin 5) (Fin 5),
         current_dir = Vec3 (Fin 0) (Fin 0) (Fin 1), intensity = Fin 1\<rparr>"
    by (rule survives_hit) (simp_all add: example_lens_def initial_ray_example step0)
  also have "\<dots> = survives example_lens 3 (1 + 1)
        \<lparr>current_pos = Vec3 (Fin (15 / 4)) (Fin 5) (Fin 15),
         current_dir = Vec3 (Fin 0) (Fin 0) (Fin 1), intensity = Fin 1\<rparr>"
    unfolding add_0 by (rule survives_hit) (simp_all add: example_lens_def step1)
  also have "\<dots> = survives example_lens 3 (2 + 1)
        \<lparr>current_pos = Vec3 (Fin (15 / 4)) (Fin 5) (Fin 25),
         current_dir = Vec3 (Fin (72 / 169)) (Fin (96 / 169)) (Fin (- 119 / 169)),
         intensity = Fin (371317 / 92823250)\<rparr>"
    unfolding one_add_one by (rule survives_hit) (simp_all add: example_lens_def step2)
  also have "\<dots>" by (simp add: survives_done)
  finally show ?thesis .
qed

text \<open>A loop whose start index is not below its bound runs no iteration.\<close>

lemma trace_loop_empty: "b \<le> i \<Longrightarrow> trace_loop lens b i st = st"
  by (rule trace_loop_done) simp

lemma second_walk_enumerated:
  "g \<in> set (nested_order n) \<Longrightarrow> trace_loop lens (bounce2 g) (bounce1 g) st = st"
  by (rule trace_loop_empty) (auto simp: nested_order_def)

text \<open>
  Claim C3, evaluated on the code at the ghost \<open>(bounce1 = 3, bounce2 = 1)\<close>, the first the
  enumerator emits, for the ray of invocation \<open>(11, 12)\<close> through \<open>example_lens\<close>. The ray
  survives the first loop. The second loop starts at index 3 with the bound 1 and runs no
  iteration: the state after both loops is the state after the first, the direction has been
  reflected once and the intensity carries one Fresnel factor and one factor 0.1.
\<close>

theorem second_walk_empty:
  "survives example_lens (bounce1 example_ghost) 0 (initial_ray example_globals 11 12)
 \<and> trace_ghost example_globals example_lens example_ghost 11 12 =
     trace_loop example_lens (bounce1 example_ghost) 0 (initial_ray example_globals 11 12)
 \<and> current_dir (trace_ghost example_globals example_lens example_ghost 11 12) =
     Vec3 (Fin (72 / 169)) (Fin (96 / 169)) (Fin (- 119 / 169))
 \<and> intensity (trace_ghost example_globals example_lens example_ghost 11 12) =
     fresnel (Fin (12 / 13)) (Fin 1) (Fin (3 / 2)) * Fin (1 / 10)"
proof -
  have f: "fresnel (Fin (12 / 13)) (Fin 1) (Fin (3 / 2)) * Fin (1 / 10) = Fin (371317 / 92823250)"
    by (simp add: fresnel_def minus_glfloat_def Let_def power_divide)
  have g: "trace_ghost example_globals example_lens example_ghost 11 12 =
     trace_loop example_lens (bounce1 example_ghost) 0 (initial_ray example_globals 11 12)"
    unfolding trace_ghost_def by (rule trace_loop_empty) (simp add: example_ghost_def)
  have b: "bounce1 example_ghost = 3" by (simp add: example_ghost_def)
  show ?thesis
    unfolding g f unfolding b using survives_example by (simp add: phase1_example)
qed

text \<open>A ray that takes the \<^verbatim>\<open>break\<close> leaves the loop with intensity 0.\<close>

lemma dead_ray_intensity:
  "\<not> survives lens b i st \<Longrightarrow> intensity (trace_loop lens b i st) = Fin 0"
proof (induction lens b i st rule: trace_loop.induct)
  case (1 lens b i st)
  show ?case
  proof (cases "i < b \<and> i < length lens")
    case False
    with "1.prems" show ?thesis by (simp add: survives_done)
  next
    case True
    then have i: "i < b" "i < length lens" by simp_all
    show ?thesis
    proof (cases "trace_step (lens ! i) (i = b - 1) st")
      case None
      with i show ?thesis by (simp add: trace_loop_miss)
    next
      case (Some st')
      with i "1.prems" have "\<not> survives lens b (i + 1) st'" by (simp add: survives_hit)
      with "1.IH" [OF True Some] have "intensity (trace_loop lens b (i + 1) st') = Fin 0" .
      with i Some show ?thesis by (simp add: trace_loop_hit)
    qed
  qed
qed

text \<open>A loop reads the interfaces below its bound only.\<close>

lemma trace_loop_take: "trace_loop (take b lens) b i st = trace_loop lens b i st"
proof (induction lens b i st rule: trace_loop.induct)
  case (1 lens b i st)
  show ?case
  proof (cases "i < b \<and> i < length lens")
    case False
    then have "\<not> (i < b \<and> i < length (take b lens))" by auto
    then have "trace_loop (take b lens) b i st = st" by (rule trace_loop_done)
    moreover from False have "trace_loop lens b i st = st" by (rule trace_loop_done)
    ultimately show ?thesis by simp
  next
    case True
    then have i: "i < b" "i < length lens" "i < length (take b lens)" by simp_all
    have nth: "take b lens ! i = lens ! i" using i by simp
    show ?thesis
    proof (cases "trace_step (lens ! i) (i = b - 1) st")
      case None
      with i nth show ?thesis by (simp add: trace_loop_miss)
    next
      case (Some st')
      from "1.IH" [OF True Some] i nth Some show ?thesis by (simp add: trace_loop_hit)
    qed
  qed
qed

text \<open>The body changes the direction in the bounce iteration only; a surviving ray leaves the
  loop in the state its bounce iteration produced.\<close>

lemma trace_step_pass:
  "trace_step iface False st = Some st' \<Longrightarrow> current_dir st' = current_dir st"
  by (auto simp: trace_step_def Let_def split: if_splits prod.splits bool.splits option.splits)

lemma trace_step_bounce:
  assumes "trace_step iface True st = Some st'" and "\<not> Fin (1 / 2) < is_flat iface"
  shows "current_dir st' =
           reflect (current_dir st) (normalize_vec3 (vsub (current_pos st') (center iface)))"
    and "\<exists>t. intersectSphere (current_pos st) (current_dir st) (center iface) (radius iface)
                = (True, Some t)
             \<and> current_pos st' = vadd (current_pos st) (vscale (current_dir st) t)"
  using assms
  by (auto simp: trace_step_def Let_def split: if_splits prod.splits bool.splits option.splits)

lemma bounce_state:
  assumes "i < b" and "b \<le> length lens" and "survives lens b i st"
  shows "\<exists>st_in. current_dir st_in = current_dir st
           \<and> trace_step (lens ! (b - 1)) True st_in = Some (trace_loop lens b i st)"
  using assms
proof (induction lens b i st rule: trace_loop.induct)
  case (1 lens b i st)
  from "1.prems" have i: "i < b" "i < length lens" and True: "i < b \<and> i < length lens" by simp_all
  show ?case
  proof (cases "trace_step (lens ! i) (i = b - 1) st")
    case None
    with i "1.prems" show ?thesis by (simp add: survives_miss)
  next
    case (Some st')
    with i "1.prems" have sv: "survives lens b (i + 1) st'" by (simp add: survives_hit)
    have loop: "trace_loop lens b i st = trace_loop lens b (i + 1) st'"
      using i Some by (rule trace_loop_hit)
    show ?thesis
    proof (cases "i = b - 1")
      case True
      then have "trace_loop lens b (i + 1) st' = st'" using i by (simp add: trace_loop_done)
      with loop Some True show ?thesis by auto
    next
      case False
      with i have "i + 1 < b" by simp
      from "1.IH" [OF True Some this "1.prems"(2) sv]
      obtain st_in where "current_dir st_in = current_dir st'"
        "trace_step (lens ! (b - 1)) True st_in = Some (trace_loop lens b (i + 1) st')" by blast
      moreover from Some False have "current_dir st' = current_dir st"
        by (simp add: trace_step_pass)
      ultimately show ?thesis using loop by auto
    qed
  qed
qed

text \<open>Negating the normal does not change the reflection.\<close>

lemma glfloat_neg_neg_mul: "(- a) * (- b) = a * (b :: glfloat)"
  by (cases a; cases b) simp_all

lemma glfloat_neg_mul: "(- a) * b = - (a * (b :: glfloat))"
  by (cases a; cases b) simp_all

lemma glfloat_mul_neg: "a * (- b) = - (a * (b :: glfloat))"
  by (cases a; cases b) simp_all

lemma glfloat_neg_add: "(- a) + (- b) = - (a + (b :: glfloat))"
  by (cases a; cases b) simp_all

lemma glfloat_neg_div: "(- a) / s = - (a / (s :: glfloat))"
  by (cases a; cases s) simp_all

lemma glfloat_neg_neg: "- (- a) = (a :: glfloat)"
  by (cases a) simp_all

lemma glfloat_sub_swap: "a - b = - (b - (a :: glfloat))"
  by (simp add: minus_glfloat_def glfloat_neg_add [symmetric] glfloat_neg_neg)
     (cases a; cases b; simp)

lemma reflect_normal_sign_aux:
  "reflect d (normalize_vec3 (Vec3 (- x) (- y) (- z))) = reflect d (normalize_vec3 (Vec3 x y z))"
  by (simp add: reflect_def normalize_vec3_def vdiv_def vlength_def dot_def vsub_def vscale_def
      glfloat_neg_neg_mul glfloat_neg_div glfloat_neg_mul glfloat_mul_neg glfloat_neg_add
      glfloat_neg_neg)

lemma reflect_normal_sign:
  "reflect d (normalize_vec3 (vsub c p)) = reflect d (normalize_vec3 (vsub p c))"
proof -
  have "vsub c p = Vec3 (- vec_x (vsub p c)) (- vec_y (vsub p c)) (- vec_z (vsub p c))"
    unfolding vsub_def vec3.sel
    by (simp add: glfloat_sub_swap [of "vec_x c"] glfloat_sub_swap [of "vec_y c"]
        glfloat_sub_swap [of "vec_z c"])
  then show ?thesis
    using reflect_normal_sign_aux [of d "vec_x (vsub p c)" "vec_y (vsub p c)" "vec_z (vsub p c)"]
    by simp
qed

text \<open>
  Claim C4 (as amended). The first loop reflects the ray at its last interface, the one at
  index \<open>bounce1 - 1\<close>; the interface at index \<open>bounce1\<close> is not read. For a ray that
  survives the loop and a spherical interface at index \<open>bounce1 - 1\<close>, the direction after
  the loop is the incoming direction reflected about the normalised vector from the hit
  point to the centre of that interface, the hit point being the position the ray has
  reached on that interface.
\<close>

theorem first_reflection:
  assumes "0 < b1" and "b1 \<le> length lens" and "survives lens b1 0 st"
    and "\<not> Fin (1 / 2) < is_flat (lens ! (b1 - 1))"
  shows "current_dir (trace_loop lens b1 0 st) =
           reflect (current_dir st)
             (normalize_vec3 (vsub (center (lens ! (b1 - 1))) (current_pos (trace_loop lens b1 0 st))))
       \<and> (\<exists>p t. intersectSphere p (current_dir st) (center (lens ! (b1 - 1))) (radius (lens ! (b1 - 1)))
                   = (True, Some t)
                \<and> current_pos (trace_loop lens b1 0 st) = vadd p (vscale (current_dir st) t))
       \<and> trace_loop (take b1 lens) b1 0 st = trace_loop lens b1 0 st"
proof -
  from bounce_state [OF assms(1-3)] obtain st_in where
    dir: "current_dir st_in = current_dir st" and
    step: "trace_step (lens ! (b1 - 1)) True st_in = Some (trace_loop lens b1 0 st)" by blast
  from trace_step_bounce [OF step assms(4)] dir
  have "current_dir (trace_loop lens b1 0 st) =
           reflect (current_dir st)
             (normalize_vec3 (vsub (current_pos (trace_loop lens b1 0 st)) (center (lens ! (b1 - 1)))))"
    and hit: "\<exists>t. intersectSphere (current_pos st_in) (current_dir st) (center (lens ! (b1 - 1)))
                  (radius (lens ! (b1 - 1))) = (True, Some t)
             \<and> current_pos (trace_loop lens b1 0 st) = vadd (current_pos st_in) (vscale (current_dir st) t)"
    by simp_all
  then have "current_dir (trace_loop lens b1 0 st) =
           reflect (current_dir st)
             (normalize_vec3 (vsub (center (lens ! (b1 - 1))) (current_pos (trace_loop lens b1 0 st))))"
    by (simp add: reflect_normal_sign)
  with hit trace_loop_take [of b1 lens 0 st] show ?thesis by blast
qed

lemma sqrt_625_16: "sqrt (625 / 16) = 25 / 4"
  by (rule real_sqrt_unique) (simp_all add: power2_eq_square)

theorem first_reflection_witness:
  "current_dir (trace_loop example_lens 3 0 (initial_ray example_globals 11 12)) =
     reflect (Vec3 (Fin 0) (Fin 0) (Fin 1))
       (normalize_vec3 (vsub (center (sphere_at 0 40)) (Vec3 (Fin (15 / 4)) (Fin 5) (Fin 25))))
 \<and> trace_loop (take 3 example_lens) 3 0 (initial_ray example_globals 11 12) =
     trace_loop example_lens 3 0 (initial_ray example_globals 11 12)"
proof -
  have flat: "\<not> Fin (1 / 2) < is_flat (example_lens ! (3 - 1))"
    by (simp add: example_lens_def sphere_at_def)
  have len: "3 \<le> length example_lens" by (simp add: example_lens_def)
  have i: "example_lens ! 2 = sphere_at 0 40" by (simp add: example_lens_def)
  from first_reflection [OF _ len survives_example flat]
  show ?thesis unfolding phase1_example by (simp add: i initial_ray_example)
qed

text \<open>The same ray through \<open>example_lens_planar\<close>, whose interface 2 is planar.\<close>

lemma step2_planar:
  "trace_step (plane_at 25) True
     \<lparr>current_pos = Vec3 (Fin (15 / 4)) (Fin 5) (Fin 15),
      current_dir = Vec3 (Fin 0) (Fin 0) (Fin 1), intensity = Fin 1\<rparr> =
   Some \<lparr>current_pos = Vec3 (Fin (15 / 4)) (Fin 5) (Fin 25),
      current_dir = Vec3 (Fin 0) (Fin 0) (Fin 1),
      intensity = Fin (1 / 10)\<rparr>"
  by (simp add: trace_step_def plane_at_def intersectPlane_def vsub_def vadd_def vscale_def dot_def
      minus_glfloat_def Let_def sqrt_625_16 normalize_vec3_def vdiv_def vlength_def
      reflect_def fresnel_def power_divide)

lemma phase1_example_planar:
  "trace_loop example_lens_planar 3 0 (initial_ray example_globals 11 12) =
     \<lparr>current_pos = Vec3 (Fin (15 / 4)) (Fin 5) (Fin 25),
      current_dir = Vec3 (Fin 0) (Fin 0) (Fin 1), intensity = Fin (1 / 10)\<rparr>"
proof -
  have "trace_loop example_lens_planar 3 0 (initial_ray example_globals 11 12) =
      trace_loop example_lens_planar 3 (0 + 1)
        \<lparr>current_pos = Vec3 (Fin (15 / 4)) (Fin 5) (Fin 5),
         current_dir = Vec3 (Fin 0) (Fin 0) (Fin 1), intensity = Fin 1\<rparr>"
    by (rule trace_loop_hit) (simp_all add: example_lens_planar_def initial_ray_example step0)
  also have "\<dots> = trace_loop example_lens_planar 3 (1 + 1)
        \<lparr>current_pos = Vec3 (Fin (15 / 4)) (Fin 5) (Fin 15),
         current_dir = Vec3 (Fin 0) (Fin 0) (Fin 1), intensity = Fin 1\<rparr>"
    unfolding add_0 by (rule trace_loop_hit) (simp_all add: example_lens_planar_def step1)
  also have "\<dots> = trace_loop example_lens_planar 3 (2 + 1)
        \<lparr>current_pos = Vec3 (Fin (15 / 4)) (Fin 5) (Fin 25),
         current_dir = Vec3 (Fin 0) (Fin 0) (Fin 1), intensity = Fin (1 / 10)\<rparr>"
    unfolding one_add_one
    by (rule trace_loop_hit) (simp_all add: example_lens_planar_def step2_planar)
  also have "\<dots> = \<lparr>current_pos = Vec3 (Fin (15 / 4)) (Fin 5) (Fin 25),
         current_dir = Vec3 (Fin 0) (Fin 0) (Fin 1), intensity = Fin (1 / 10)\<rparr>"
    by (rule trace_loop_done) simp
  finally show ?thesis .
qed

text \<open>
  Claim C4 as stated fails. For the ghost \<open>(bounce1 = 3, bounce2 = 1)\<close> on \<open>example_lens\<close>
  the code leaves the first loop with the direction reflected at interface 2, while the
  reflection at the interface of index 3, a plane, would give \<open>(0, 0, -1)\<close>. On
  \<open>example_lens_planar\<close> the reflecting interface is planar and the code, using the vector
  from the centre to the hit point as normal, leaves the direction \<open>(0, 0, 1)\<close> unchanged,
  where the reflection about the axis gives \<open>(0, 0, -1)\<close>.
\<close>

theorem first_reflection_counterexample:
  "current_dir (trace_loop example_lens (bounce1 example_ghost) 0 (initial_ray example_globals 11 12))
     = Vec3 (Fin (72 / 169)) (Fin (96 / 169)) (Fin (- 119 / 169))
 \<and> spec_first_reflection example_lens example_ghost
       (current_dir (initial_ray example_globals 11 12))
       (current_pos (trace_loop example_lens (bounce1 example_ghost) 0
          (initial_ray example_globals 11 12)))
     = Vec3 (Fin 0) (Fin 0) (Fin (- 1))
 \<and> current_dir (trace_loop example_lens_planar 3 0 (initial_ray example_globals 11 12))
     = Vec3 (Fin 0) (Fin 0) (Fin 1)
 \<and> reflect (current_dir (initial_ray example_globals 11 12))
       (spec_surface_normal (example_lens_planar ! 2)
          (current_pos (trace_loop example_lens_planar 3 0 (initial_ray example_globals 11 12))))
     = Vec3 (Fin 0) (Fin 0) (Fin (- 1))"
proof -
  have b: "bounce1 example_ghost = 3" by (simp add: example_ghost_def)
  have n3: "spec_surface_normal (example_lens ! 3) h = Vec3 (Fin 0) (Fin 0) (Fin 1)" for h
    by (simp add: spec_surface_normal_def example_lens_def plane_at_def)
  have n2: "spec_surface_normal (example_lens_planar ! 2) h = Vec3 (Fin 0) (Fin 0) (Fin 1)" for h
    by (simp add: spec_surface_normal_def example_lens_planar_def plane_at_def)
  have r: "reflect (Vec3 (Fin 0) (Fin 0) (Fin 1)) (Vec3 (Fin 0) (Fin 0) (Fin 1)) =
      Vec3 (Fin 0) (Fin 0) (Fin (- 1))"
    by (simp add: reflect_def dot_def vsub_def vscale_def minus_glfloat_def)
  show ?thesis
    unfolding b phase1_example phase1_example_planar
    by (simp add: spec_first_reflection_def b n3 n2 initial_ray_example r)
qed

section \<open>The record each invocation writes\<close>

text \<open>
  Claim C10 (as amended). An invocation whose ghost id is valid, whose row \<^verbatim>\<open>local_y\<close> is
  below 16, whose bounce indices are below the number of interfaces and whose index is
  within the buffer stores exactly one record, at its own index; the record holds the
  projection of the last position reached, the intensity after both loops and the reserved
  component 1.0, whether or not the ray died. The intensity is 0 for a ray that misses in
  the second loop, and for a ray that misses in the first loop when
  \<open>bounce2 \<le> bounce1\<close>, as for every enumerated ghost; the position then is the one reached
  at the miss.
\<close>

theorem vertex_record_written:
  assumes "fst thread_id div 16 < length ghost_data"
    and "snd thread_id < 16"
    and "bounce1 (ghost_data ! (fst thread_id div 16)) < length lens"
    and "bounce2 (ghost_data ! (fst thread_id div 16)) < length lens"
    and "vertex_idx (fst thread_id div 16) (fst thread_id mod 16) (snd thread_id) < length vertex_data"
  shows
    "(let ghost = ghost_data ! (fst thread_id div 16);
          local_x = fst thread_id mod 16;
          local_y = snd thread_id;
          st0 = initial_ray globals local_x local_y;
          st1 = trace_loop lens (bounce1 ghost) 0 st0;
          st2 = trace_loop lens (bounce2 ghost) (bounce1 ghost) st1
      in main globals lens ghost_data thread_id vertex_data =
           Inr (vertex_data[vertex_idx (fst thread_id div 16) local_x local_y :=
             Vec4 (vec2_x (screen_pos globals (current_pos st2)))
                  (vec2_y (screen_pos globals (current_pos st2))) (intensity st2) (Fin 1)])
         \<and> (\<not> survives lens (bounce2 ghost) (bounce1 ghost) st1 \<longrightarrow> intensity st2 = Fin 0)
         \<and> (\<not> survives lens (bounce1 ghost) 0 st0 \<and> bounce2 ghost \<le> bounce1 ghost \<longrightarrow>
               intensity st2 = Fin 0 \<and> current_pos st2 = current_pos st1))"
proof -
  have "main globals lens ghost_data thread_id vertex_data =
      Inr (vertex_data[vertex_idx (fst thread_id div 16) (fst thread_id mod 16) (snd thread_id) :=
        vertex_record globals
          (trace_ghost globals lens (ghost_data ! (fst thread_id div 16))
             (fst thread_id mod 16) (snd thread_id))])"
  proof -
    have "\<not> 16 \<le> fst thread_id mod 16" by simp
    with assms show ?thesis
      by (simp add: main_def Let_def store_vertex_def del: mod_less_divisor)
  qed
  then show ?thesis
    by (auto simp: Let_def vertex_record_def trace_ghost_def dead_ray_intensity trace_loop_empty)
qed

text \<open>The axial ray of invocation \<open>(8, 8)\<close> through \<open>example_lens_miss\<close>.\<close>

lemma step_miss:
  "trace_step (sphere_at 50 20) bounce
     \<lparr>current_pos = Vec3 (Fin 0) (Fin 0) (Fin (- 100)),
      current_dir = Vec3 (Fin 0) (Fin 0) (Fin 1), intensity = Fin 1\<rparr> = None"
  by (simp add: trace_step_def sphere_at_def intersectSphere_def vsub_def dot_def
      minus_glfloat_def Let_def)

lemma initial_ray_axis:
  "initial_ray example_globals 8 8 =
     \<lparr>current_pos = Vec3 (Fin 0) (Fin 0) (Fin (- 100)),
      current_dir = Vec3 (Fin 0) (Fin 0) (Fin 1), intensity = Fin 1\<rparr>"
  by (simp add: initial_ray_def example_globals_def aperture_coord_def normalize_vec3_def
      vdiv_def vlength_def dot_def minus_glfloat_def)

lemma step_nan:
  "trace_step (plane_at 5) True
     \<lparr>current_pos = Vec3 (Fin 0) (Fin 0) (Fin (- 100)),
      current_dir = Vec3 (Fin 0) (Fin 0) (Fin 1), intensity = Fin 0\<rparr> =
   Some \<lparr>current_pos = Vec3 (Fin 0) (Fin 0) (Fin 5),
      current_dir = Vec3 NaN NaN NaN, intensity = NaN\<rparr>"
  by (simp add: trace_step_def plane_at_def intersectPlane_def vsub_def vadd_def vscale_def dot_def
      minus_glfloat_def Let_def normalize_vec3_def vdiv_def vlength_def reflect_def fresnel_def)

lemma miss_example:
  "\<not> survives example_lens_miss 1 0 (initial_ray example_globals 8 8)"
  "trace_ghost example_globals example_lens_miss \<lparr>bounce1 = 1, bounce2 = 2\<rparr> 8 8 =
     \<lparr>current_pos = Vec3 (Fin 0) (Fin 0) (Fin 5), current_dir = Vec3 NaN NaN NaN, intensity = NaN\<rparr>"
proof -
  show "\<not> survives example_lens_miss 1 0 (initial_ray example_globals 8 8)"
    by (rule survives_miss) (simp_all add: example_lens_miss_def initial_ray_axis step_miss)
  have "trace_loop example_lens_miss 1 0 (initial_ray example_globals 8 8) =
      (initial_ray example_globals 8 8)\<lparr>intensity := Fin 0\<rparr>"
    by (rule trace_loop_miss) (simp_all add: example_lens_miss_def initial_ray_axis step_miss)
  then have p1: "trace_loop example_lens_miss 1 0 (initial_ray example_globals 8 8) =
      \<lparr>current_pos = Vec3 (Fin 0) (Fin 0) (Fin (- 100)),
       current_dir = Vec3 (Fin 0) (Fin 0) (Fin 1), intensity = Fin 0\<rparr>"
    by (simp add: initial_ray_axis)
  have "trace_loop example_lens_miss 2 1
      \<lparr>current_pos = Vec3 (Fin 0) (Fin 0) (Fin (- 100)),
       current_dir = Vec3 (Fin 0) (Fin 0) (Fin 1), intensity = Fin 0\<rparr> =
     trace_loop example_lens_miss 2 (1 + 1)
      \<lparr>current_pos = Vec3 (Fin 0) (Fin 0) (Fin 5), current_dir = Vec3 NaN NaN NaN, intensity = NaN\<rparr>"
    by (rule trace_loop_hit) (simp_all add: example_lens_miss_def step_nan)
  also have "\<dots> =
      \<lparr>current_pos = Vec3 (Fin 0) (Fin 0) (Fin 5), current_dir = Vec3 NaN NaN NaN, intensity = NaN\<rparr>"
    by (rule trace_loop_done) simp
  finally have p2: "trace_loop example_lens_miss 2 1
      \<lparr>current_pos = Vec3 (Fin 0) (Fin 0) (Fin (- 100)),
       current_dir = Vec3 (Fin 0) (Fin 0) (Fin 1), intensity = Fin 0\<rparr> =
      \<lparr>current_pos = Vec3 (Fin 0) (Fin 0) (Fin 5), current_dir = Vec3 NaN NaN NaN, intensity = NaN\<rparr>" .
  show "trace_ghost example_globals example_lens_miss \<lparr>bounce1 = 1, bounce2 = 2\<rparr> 8 8 =
     \<lparr>current_pos = Vec3 (Fin 0) (Fin 0) (Fin 5), current_dir = Vec3 NaN NaN NaN, intensity = NaN\<rparr>"
    by (simp only: trace_ghost_def GhostData.select_convs p1 p2)
qed

lemma vertex_buffer_length_1: "vertex_buffer_length 1 = 4096"
  by (simp add: vertex_buffer_length_def patch_tessellation_def)

theorem vertex_record_written_witness:
  "main example_globals example_lens [example_ghost] (11, 12) (stale_buffer (vertex_buffer_length 1)) =
     Inr ((stale_buffer (vertex_buffer_length 1))
       [203 := Vec4 (Fin (- 255 / 256)) (Fin (- 107 / 108)) (Fin (371317 / 92823250)) (Fin 1)])
 \<and> main example_globals example_lens_miss [example_ghost] (8, 8)
       (stale_buffer (vertex_buffer_length 1)) =
     Inr ((stale_buffer (vertex_buffer_length 1))
       [136 := Vec4 (Fin (- 1)) (Fin (- 1)) (Fin 0) (Fin 1)])"
proof -
  have b: "bounce1 example_ghost = 3" "bounce2 example_ghost = 1"
    by (simp_all add: example_ghost_def)
  have live: "main example_globals example_lens [example_ghost] (11, 12)
        (stale_buffer (vertex_buffer_length 1)) =
     Inr ((stale_buffer (vertex_buffer_length 1))
       [203 := Vec4 (Fin (- 255 / 256)) (Fin (- 107 / 108)) (Fin (371317 / 92823250)) (Fin 1)])"
  proof -
    have ix: "fst (11 :: nat, 12 :: nat) div 16 = 0" "fst (11 :: nat, 12 :: nat) mod 16 = 11"
      "snd (11 :: nat, 12 :: nat) = 12" "[example_ghost] ! 0 = example_ghost"
      by simp_all
    have idx: "vertex_idx 0 11 12 = 203" by (simp add: vertex_idx_def)
    have e: "trace_loop example_lens 1 3 st = st" for st by (rule trace_loop_empty) simp
    have A1: "fst (11 :: nat, 12 :: nat) div 16 < length [example_ghost]" by simp
    have A2: "snd (11 :: nat, 12 :: nat) < 16" by simp
    have A3: "bounce1 ([example_ghost] ! (fst (11 :: nat, 12 :: nat) div 16)) < length example_lens"
      and A4: "bounce2 ([example_ghost] ! (fst (11 :: nat, 12 :: nat) div 16)) < length example_lens"
      by (simp_all add: example_ghost_def example_lens_def)
    have A5: "vertex_idx (fst (11 :: nat, 12 :: nat) div 16) (fst (11 :: nat, 12 :: nat) mod 16)
        (snd (11 :: nat, 12 :: nat)) < length (stale_buffer (vertex_buffer_length 1))"
      unfolding ix idx vertex_buffer_length_1 by (simp add: stale_buffer_def)
    note w = vertex_record_written [OF A1 A2 A3 A4 A5, of example_globals, unfolded Let_def,
        THEN conjunct1, unfolded ix, unfolded b idx, unfolded phase1_example, unfolded e]
    have s: "screen_pos example_globals (Vec3 (Fin (15 / 4)) (Fin 5) (Fin 25)) =
        Vec2 (Fin (- 255 / 256)) (Fin (- 107 / 108))"
      by (simp add: screen_pos_def example_globals_def minus_glfloat_def)
    from w show ?thesis by (simp only: ray.select_convs s vec2.sel)
  qed
  have dead: "main example_globals example_lens_miss [example_ghost] (8, 8)
       (stale_buffer (vertex_buffer_length 1)) =
     Inr ((stale_buffer (vertex_buffer_length 1))
       [136 := Vec4 (Fin (- 1)) (Fin (- 1)) (Fin 0) (Fin 1)])"
  proof -
    have ix: "fst (8 :: nat, 8 :: nat) div 16 = 0" "fst (8 :: nat, 8 :: nat) mod 16 = 8"
      "snd (8 :: nat, 8 :: nat) = 8" "[example_ghost] ! 0 = example_ghost"
      by simp_all
    have idx: "vertex_idx 0 8 8 = 136" by (simp add: vertex_idx_def)
    have A1: "fst (8 :: nat, 8 :: nat) div 16 < length [example_ghost]" by simp
    have A2: "snd (8 :: nat, 8 :: nat) < 16" by simp
    have A3: "bounce1 ([example_ghost] ! (fst (8 :: nat, 8 :: nat) div 16)) < length example_lens_miss"
      and A4: "bounce2 ([example_ghost] ! (fst (8 :: nat, 8 :: nat) div 16)) < length example_lens_miss"
      by (simp_all add: example_ghost_def example_lens_miss_def)
    have A5: "vertex_idx (fst (8 :: nat, 8 :: nat) div 16) (fst (8 :: nat, 8 :: nat) mod 16)
        (snd (8 :: nat, 8 :: nat)) < length (stale_buffer (vertex_buffer_length 1))"
      unfolding ix idx vertex_buffer_length_1 by (simp add: stale_buffer_def)
    have miss: "\<not> survives example_lens_miss 3 0 (initial_ray example_globals 8 8)"
      by (rule survives_miss) (simp_all add: example_lens_miss_def initial_ray_axis step_miss)
    have "trace_loop example_lens_miss 3 0 (initial_ray example_globals 8 8) =
        (initial_ray example_globals 8 8)\<lparr>intensity := Fin 0\<rparr>"
      by (rule trace_loop_miss) (simp_all add: example_lens_miss_def initial_ray_axis step_miss)
    then have p: "current_pos (trace_loop example_lens_miss 3 0 (initial_ray example_globals 8 8)) =
        Vec3 (Fin 0) (Fin 0) (Fin (- 100))"
      by (simp add: initial_ray_axis)
    note w = vertex_record_written [OF A1 A2 A3 A4 A5, of example_globals, unfolded Let_def,
        unfolded ix, unfolded b idx]
    from w miss have "intensity (trace_loop example_lens_miss 1 3
          (trace_loop example_lens_miss 3 0 (initial_ray example_globals 8 8))) = Fin 0"
      and "current_pos (trace_loop example_lens_miss 1 3
          (trace_loop example_lens_miss 3 0 (initial_ray example_globals 8 8))) =
        Vec3 (Fin 0) (Fin 0) (Fin (- 100))"
      by (simp_all add: p)
    moreover have "screen_pos example_globals (Vec3 (Fin 0) (Fin 0) (Fin (- 100))) =
        Vec2 (Fin (- 1)) (Fin (- 1))"
      by (simp add: screen_pos_def example_globals_def minus_glfloat_def)
    ultimately show ?thesis using w by simp
  qed
  from live dead show ?thesis by (rule conjI)
qed

text \<open>
  Claim C10 as stated fails twice. The invocation \<open>(0, 16)\<close> is part of every dispatch and
  meets the three stated conditions, yet returns at the test \<^verbatim>\<open>local_y >= 16\<close> and stores
  nothing. And for the ghost \<open>(bounce1 = 1, bounce2 = 2)\<close> on \<open>example_lens_miss\<close> the axial
  ray misses interface 0, the second loop then reflects it at the plane of index 1 in its
  centre, where the normal is \<^verbatim>\<open>normalize\<close> of the zero vector, and the intensity stored
  is NaN, not 0.
\<close>

theorem vertex_record_written_counterexample:
  "dispatched 1 (0, 16)
 \<and> fst (0 :: nat, 16 :: nat) div 16 < length [example_ghost]
 \<and> bounce1 example_ghost < length example_lens
 \<and> bounce2 example_ghost < length example_lens
 \<and> vertex_idx 0 0 16 < length (stale_buffer (vertex_buffer_length 1))
 \<and> main example_globals example_lens [example_ghost] (0, 16) (stale_buffer (vertex_buffer_length 1))
     = Inr (stale_buffer (vertex_buffer_length 1))
 \<and> \<not> survives example_lens_miss 1 0 (initial_ray example_globals 8 8)
 \<and> main example_globals example_lens_miss [\<lparr>bounce1 = 1, bounce2 = 2\<rparr>] (8, 8)
       (stale_buffer (vertex_buffer_length 1))
     = Inr ((stale_buffer (vertex_buffer_length 1))
         [136 := Vec4 (Fin (- 1)) (Fin (- 1)) NaN (Fin 1)])"
proof -
  have a: "dispatched 1 (0, 16)" by (simp add: dispatched_def patch_tessellation_def)
  have a': "fst (0 :: nat, 16 :: nat) div 16 < length [example_ghost]" by simp
  have a'': "bounce1 example_ghost < length example_lens" "bounce2 example_ghost < length example_lens"
    by (simp_all add: example_ghost_def example_lens_def)
  have b: "vertex_idx 0 0 16 < length (stale_buffer (vertex_buffer_length 1))"
    unfolding vertex_buffer_length_1 by (simp add: vertex_idx_def stale_buffer_def)
  have c: "main example_globals example_lens [example_ghost] (0, 16) (stale_buffer (vertex_buffer_length 1))
     = Inr (stale_buffer (vertex_buffer_length 1))"
    by (simp add: main_def)
  have m: "main example_globals example_lens_miss [\<lparr>bounce1 = 1, bounce2 = 2\<rparr>] (8, 8)
       (stale_buffer (vertex_buffer_length 1)) =
      Inr ((stale_buffer (vertex_buffer_length 1))
        [136 := vertex_record example_globals
           (trace_ghost example_globals example_lens_miss \<lparr>bounce1 = 1, bounce2 = 2\<rparr> 8 8)])"
    unfolding vertex_buffer_length_1
    by (simp add: main_def Let_def vertex_idx_def stale_buffer_def example_lens_miss_def
        store_vertex_def)
  have d: "main example_globals example_lens_miss [\<lparr>bounce1 = 1, bounce2 = 2\<rparr>] (8, 8)
       (stale_buffer (vertex_buffer_length 1))
     = Inr ((stale_buffer (vertex_buffer_length 1))
         [136 := Vec4 (Fin (- 1)) (Fin (- 1)) NaN (Fin 1)])"
    unfolding m unfolding miss_example(2)
    by (simp add: vertex_record_def screen_pos_def example_globals_def minus_glfloat_def)
  from a a' a'' b c d miss_example(1) show ?thesis by blast
qed


end
